theory Spec2Isabelle
  imports Main "HOL-Library.List_Lexorder"
begin

section \<open>A shallow embedding of \<^verbatim>\<open>tree.js\<close>\<close>

text \<open>
  \<^verbatim>\<open>tree.js\<close> prints the directory tree below a root directory and, under every
  JavaScript file, the signatures of the functions the file declares. The embedding follows
  the source function by function and keeps its names.

  A JavaScript string is a sequence of UTF-16 code units, and is modelled as the list of
  its code units, each a number (below 65536 in a string of the program; the functions
  are defined on all lists). File names, file contents and the output are such strings.
  \<open>js\<close> turns a literal of ASCII characters into its code units. Comparison of strings,
  as \<open>sort\<close> uses it, is the lexicographic order of the lists of code units.

  An exception is a value \<open>Inl e\<close> of a sum type, a normal result is \<open>Inr v\<close>;
  \<open>try { A } catch { B }\<close> is the function \<open>try_catch\<close>.
\<close>

subsection \<open>Strings\<close>

type_synonym code_unit = int

type_synonym jsstring = "code_unit list"

definition cu :: "char \<Rightarrow> code_unit" where
  "cu c = of_char c"

definition js :: "string \<Rightarrow> jsstring" where
  "js s = map cu s"

declare cu_def [simp] js_def [simp]

subsection \<open>Exceptions\<close>

datatype error = Error jsstring

definition try_catch :: "(error + 'a) \<Rightarrow> (error \<Rightarrow> error + 'a) \<Rightarrow> error + 'a" where
  "try_catch body handler = (case body of Inl e \<Rightarrow> handler e | Inr v \<Rightarrow> Inr v)"

definition bindE :: "(error + 'a) \<Rightarrow> ('a \<Rightarrow> error + 'b) \<Rightarrow> error + 'b" where
  "bindE m f = (case m of Inl e \<Rightarrow> Inl e | Inr v \<Rightarrow> f v)"

subsection \<open>String primitives of JavaScript\<close>

text \<open>
  \<open>s.split(c)\<close> for a one-character separator. The result is never empty: the empty
  string splits into one empty part.
\<close>

fun str_split :: "code_unit \<Rightarrow> jsstring \<Rightarrow> jsstring list" where
  "str_split c [] = [[]]"
| "str_split c (x # xs) =
     (let parts = str_split c xs
      in if x = c then [] # parts else (x # hd parts) # tl parts)"

text \<open>\<open>s.startsWith(p)\<close>.\<close>

definition startsWith :: "jsstring \<Rightarrow> jsstring \<Rightarrow> bool" where
  "startsWith s p = (take (length p) s = p)"

text \<open>\<open>s.includes(sub)\<close>: \<open>sub\<close> occurs somewhere in \<open>s\<close>.\<close>

fun includes_str :: "jsstring \<Rightarrow> jsstring \<Rightarrow> bool" where
  "includes_str [] sub = (sub = [])"
| "includes_str (c # cs) sub = (startsWith (c # cs) sub \<or> includes_str cs sub)"

text \<open>\<open>xs.join(sep)\<close>.\<close>

fun join :: "jsstring \<Rightarrow> jsstring list \<Rightarrow> jsstring" where
  "join sep [] = []"
| "join sep [x] = x"
| "join sep (x # y # ys) = x @ sep @ join sep (y # ys)"

text \<open>
  The character classes of the regular expressions. \<open>\s\<close> is the white space and the
  line terminators of the language: tab, line feed, vertical tab, form feed, carriage
  return, space, no-break space, the space separators U+1680, U+2000 to U+200A, U+202F,
  U+205F and U+3000, the line and paragraph separators U+2028 and U+2029, and the byte
  order mark U+FEFF. \<open>\w\<close> is the letters and digits of ASCII and the underscore.
\<close>

definition isSpace :: "code_unit \<Rightarrow> bool" where
  "isSpace c =
     (c \<in> set [0x09, 0x0A, 0x0B, 0x0C, 0x0D, 0x20, 0xA0, 0x1680, 0x2028, 0x2029,
                0x202F, 0x205F, 0x3000, 0xFEFF]
      \<or> (0x2000 \<le> c \<and> c \<le> 0x200A))"

definition isWord :: "code_unit \<Rightarrow> bool" where
  "isWord c = (c \<in> set (js ''abcdefghijklmnopqrstuvwxyz'' @ js ''ABCDEFGHIJKLMNOPQRSTUVWXYZ''
                          @ js ''0123456789'' @ js ''_''))"

text \<open>\<open>s.trim()\<close> removes the same characters as \<open>\s\<close> matches, at both ends.\<close>

definition trim :: "jsstring \<Rightarrow> jsstring" where
  "trim s = rev (dropWhile isSpace (rev (dropWhile isSpace s)))"

text \<open>The decimal rendering of a natural number, as a template literal prints it.\<close>

definition digit :: "nat \<Rightarrow> code_unit" where
  "digit d = js ''0123456789'' ! d"

fun string_of_nat :: "nat \<Rightarrow> jsstring" where
  "string_of_nat n = (if n < 10 then [digit n] else string_of_nat (n div 10) @ [digit (n mod 10)])"

subsection \<open>Configuration\<close>

record config =
  excludePaths :: "jsstring list"
  excludeFiles :: "jsstring list"
  includeExtensions :: "jsstring list"

definition DEFAULT_CONFIG :: config where
  "DEFAULT_CONFIG =
     \<lparr> excludePaths = [js ''node_modules''],
       excludeFiles = [js ''package-lock.json''],
       includeExtensions = [js ''.js'', js ''.mjs'', js ''.cjs'', js ''.json''] \<rparr>"

text \<open>
  The object \<open>JSON.parse\<close> returns for \<^verbatim>\<open>.code-structure.json\<close>, read at its four
  recognised fields. A field is \<open>None\<close> when it is absent (or falsy), so that
  \<open>config.f || d\<close> is \<open>d\<close>; a list, also the empty one, is truthy.
\<close>

record config_json =
  json_excludePaths :: "jsstring list option"
  json_excludeDirs :: "jsstring list option"
  json_excludeFiles :: "jsstring list option"
  json_includeExtensions :: "jsstring list option"

text \<open>
  What the scan directory holds at \<^verbatim>\<open>.code-structure.json\<close>: nothing, a file that
  \<open>fs.readFileSync\<close> cannot read, a file that \<open>JSON.parse\<close> rejects, or a configuration.
\<close>

datatype config_file =
    NoConfigFile
  | ConfigUnreadable error
  | ConfigMalformed error
  | ConfigParsed config_json

definition existsSync :: "config_file \<Rightarrow> bool" where
  "existsSync cf = (cf \<noteq> NoConfigFile)"

text \<open>\<open>JSON.parse(fs.readFileSync(configPath, 'utf8'))\<close>: either call may throw.\<close>

fun readConfig :: "config_file \<Rightarrow> error + config_json" where
  "readConfig NoConfigFile = Inl (Error (js ''ENOENT''))"
| "readConfig (ConfigUnreadable e) = Inl e"
| "readConfig (ConfigMalformed e) = Inl e"
| "readConfig (ConfigParsed j) = Inr j"

text \<open>\<open>x || []\<close> on an optional list.\<close>

definition or_empty :: "jsstring list option \<Rightarrow> jsstring list" where
  "or_empty x = (case x of None \<Rightarrow> [] | Some xs \<Rightarrow> xs)"

text \<open>
  \<open>path.join(a, b)\<close> for a directory path without a trailing separator (or the empty
  relative path of the scan root) and an entry name.
\<close>

definition path_join :: "jsstring \<Rightarrow> jsstring \<Rightarrow> jsstring" where
  "path_join a b = (if a = [] then b else a @ js ''/'' @ b)"

text \<open>
  \<open>loadConfig\<close> returns the configuration; the second component lists the lines it writes
  with \<open>console.warn\<close>. The \<open>try\<close> block returns the merged configuration (\<open>Some\<close>) or
  falls through (\<open>None\<close>); the \<open>catch\<close> block warns and falls through to the defaults.
\<close>

definition loadConfig :: "config_file \<Rightarrow> jsstring \<Rightarrow> config \<times> jsstring list" where
  "loadConfig cf scanDirectory =
     (let configPath = path_join scanDirectory (js ''.code-structure.json'');
          defaults = \<lparr> excludePaths = excludePaths DEFAULT_CONFIG,
                       excludeFiles = excludeFiles DEFAULT_CONFIG,
                       includeExtensions = includeExtensions DEFAULT_CONFIG \<rparr>
      in case (if existsSync cf
               then bindE (readConfig cf) (\<lambda>config. Inr (Some
                      \<lparr> excludePaths = excludePaths DEFAULT_CONFIG
                                        @ or_empty (json_excludePaths config)
                                        @ or_empty (json_excludeDirs config),
                        excludeFiles = excludeFiles DEFAULT_CONFIG
                                        @ or_empty (json_excludeFiles config),
                        includeExtensions =
                          (case json_includeExtensions config of
                             Some exts \<Rightarrow> exts
                           | None \<Rightarrow> includeExtensions DEFAULT_CONFIG) \<rparr>))
               else Inr None) of
           Inr (Some merged) \<Rightarrow> (merged, [])
         | Inr None \<Rightarrow> (defaults, [])
         | Inl (Error message) \<Rightarrow>
             (defaults,
              [js ''Warning: Could not read config file '' @ configPath @ js '': '' @ message,
               js ''Using default configuration.'']))"

subsection \<open>The path filter\<close>

text \<open>
  \<open>shouldExcludePath\<close> and \<open>shouldExcludeFile\<close> are closures of \<open>generateTree\<close> over the
  lists \<open>EXCLUDE_PATHS\<close> and \<open>EXCLUDE_FILES\<close> of the loaded configuration; the lists are
  parameters here. \<open>Array.prototype.some\<close> is \<^const>\<open>list_ex\<close>, \<open>includes\<close> is membership.
\<close>

definition shouldExcludePath :: "jsstring list \<Rightarrow> jsstring \<Rightarrow> bool" where
  "shouldExcludePath EXCLUDE_PATHS relativePath =
     list_ex (\<lambda>excludePath.
        if relativePath = excludePath then True
        else if startsWith relativePath (excludePath @ js ''/'') then True
        else (let pathParts = str_split (cu (CHR ''/'')) relativePath
              in excludePath \<in> set pathParts)) EXCLUDE_PATHS"

text \<open>
  \<open>path.basename\<close> on a path without a trailing separator: what follows the last \<open>/\<close>.
\<close>

definition basename :: "jsstring \<Rightarrow> jsstring" where
  "basename p = last (str_split (cu (CHR ''/'')) p)"

definition shouldExcludeFile :: "jsstring list \<Rightarrow> jsstring \<Rightarrow> bool" where
  "shouldExcludeFile EXCLUDE_FILES filePath =
     (let fileName = basename filePath in fileName \<in> set EXCLUDE_FILES)"

subsection \<open>The syntax tree and the structural strategy\<close>

text \<open>
  The parser (\<open>acorn\<close>) and the tree walker (\<open>acorn-walk\<close>) are libraries. The tree is
  modelled at the node kinds the visitors of \<open>extractMethodSignatures\<close> inspect; every
  other kind of node is \<open>Other\<close> with the children the walker descends into (a class with
  its members, a block with its statements, an expression with its operands). A function
  carries its \<open>async\<close> flag, its parameters and the nodes nested in its parameter defaults
  and its body. A variable declarator carries the pattern on its left, the nodes nested in
  that pattern (the defaults and computed keys of a destructuring pattern; none for an
  identifier) and its initialiser. Nested nodes are listed in the order the walker visits
  them.

  A property key is an identifier (also a private name), a literal (given by the text a
  template prints for its value) or another expression.
\<close>

datatype key = IdentifierKey jsstring | LiteralKey jsstring | OtherKey

datatype property = Property key | RestElementProperty

datatype pattern =
    Identifier jsstring
  | AssignmentPattern pattern
  | RestElement pattern
  | ObjectPattern "property list"
  | ArrayPattern
  | OtherPattern

datatype node =
    FunctionDeclaration "jsstring option" bool "pattern list" "node list"
  | FunctionExpression bool "pattern list" "node list"
  | ArrowFunctionExpression bool "pattern list" "node list"
  | MethodDefinition key bool "pattern list" "node list"
  | VariableDeclaration "node list"
  | VariableDeclarator pattern "node list" "node option"
  | ExportNamedDeclaration "node option"
  | ExportDefaultDeclaration node
  | Other "node list"

text \<open>
  \<open>x.name\<close> of a pattern is the identifier's name and \<open>undefined\<close> otherwise; a template
  literal prints \<open>undefined\<close> as the word.
\<close>

fun name_of :: "pattern \<Rightarrow> jsstring option" where
  "name_of (Identifier n) = Some n"
| "name_of _ = None"

definition template :: "jsstring option \<Rightarrow> jsstring" where
  "template x = (case x of None \<Rightarrow> (js ''undefined'') | Some s \<Rightarrow> s)"

text \<open>The inner \<open>map\<close> of \<open>extractParams\<close>: \<open>prop.key && prop.key.name\<close> must be truthy.\<close>

fun prop_name :: "property \<Rightarrow> jsstring" where
  "prop_name (Property (IdentifierKey n)) = (if n \<noteq> [] then n else (js ''?''))"
| "prop_name _ = (js ''?'')"

fun param :: "pattern \<Rightarrow> jsstring" where
  "param (Identifier n) = n"
| "param (AssignmentPattern left) = template (name_of left) @ js '' = ...''"
| "param (RestElement argument) = (js ''...'') @ template (name_of argument)"
| "param (ObjectPattern properties) =
     (if length properties > 0
      then (js ''{'') @ join (js '', '') (map prop_name properties) @ js ''}''
      else (js ''{...}''))"
| "param ArrayPattern = (js ''[...]'')"
| "param OtherPattern = (js ''?'')"

definition extractParams :: "pattern list \<Rightarrow> jsstring" where
  "extractParams params = join (js '', '') (map param params)"

text \<open>\<open>const prefix = x.async ? 'async ' : ''\<close>.\<close>

definition async_prefix :: "bool \<Rightarrow> jsstring" where
  "async_prefix async = (if async then (js ''async '') else [])"

text \<open>\<open>node.key.name || node.key.value\<close>, as the template prints it.\<close>

fun methodName :: "key \<Rightarrow> jsstring" where
  "methodName (IdentifierKey n) = (if n \<noteq> [] then n else (js ''undefined''))"
| "methodName (LiteralKey v) = v"
| "methodName OtherKey = (js ''undefined'')"

text \<open>
  The visitors. Each returns the signatures it pushes for its node; \<open>includeAllMethods\<close>
  is the mode flag. The visitor of a named export reads \<open>node.declaration.id.name\<close>
  unguarded, a \<open>TypeError\<close> when the identifier is \<open>null\<close>.
\<close>

definition visit_FunctionDeclaration :: "bool \<Rightarrow> jsstring option \<Rightarrow> bool \<Rightarrow> pattern list \<Rightarrow> jsstring list" where
  "visit_FunctionDeclaration includeAllMethods ident async params =
     (case ident of
        Some name \<Rightarrow>
          if includeAllMethods \<and> name \<noteq> []
          then [async_prefix async @ name @ js ''('' @ extractParams params @ js '')'']
          else []
      | None \<Rightarrow> [])"

definition visit_MethodDefinition :: "bool \<Rightarrow> key \<Rightarrow> bool \<Rightarrow> pattern list \<Rightarrow> jsstring list" where
  "visit_MethodDefinition includeAllMethods k async params =
     (if includeAllMethods
      then [async_prefix async @ methodName k @ js ''('' @ extractParams params @ js '')'']
      else [])"

fun visit_VariableDeclarator :: "bool \<Rightarrow> pattern \<Rightarrow> node option \<Rightarrow> jsstring list" where
  "visit_VariableDeclarator includeAllMethods (Identifier name) (Some (ArrowFunctionExpression async params inner)) =
     (if includeAllMethods \<and> name \<noteq> []
      then [async_prefix async @ name @ js ''('' @ extractParams params @ js '')''] else [])"
| "visit_VariableDeclarator includeAllMethods (Identifier name) (Some (FunctionExpression async params inner)) =
     (if includeAllMethods \<and> name \<noteq> []
      then [async_prefix async @ name @ js ''('' @ extractParams params @ js '')''] else [])"
| "visit_VariableDeclarator includeAllMethods ident init = []"

text \<open>The \<open>forEach\<close> body of the named-export visitor, for one declarator.\<close>

fun export_declarator :: "node \<Rightarrow> jsstring list" where
  "export_declarator (VariableDeclarator ident nested (Some (ArrowFunctionExpression async params inner))) =
     [js ''export '' @ async_prefix async @ template (name_of ident) @ js ''('' @ extractParams params @ js '')'']"
| "export_declarator (VariableDeclarator ident nested (Some (FunctionExpression async params inner))) =
     [js ''export '' @ async_prefix async @ template (name_of ident) @ js ''('' @ extractParams params @ js '')'']"
| "export_declarator declarator = []"

fun visit_ExportNamedDeclaration :: "node option \<Rightarrow> error + jsstring list" where
  "visit_ExportNamedDeclaration (Some (FunctionDeclaration ident async params inner)) =
     (case ident of
        None \<Rightarrow> Inl (Error (js ''TypeError: Cannot read properties of null (reading 'name')''))
      | Some name \<Rightarrow> Inr [js ''export '' @ async_prefix async @ name @ js ''('' @ extractParams params @ js '')''])"
| "visit_ExportNamedDeclaration (Some (VariableDeclaration declarations)) =
     Inr (concat (map export_declarator declarations))"
| "visit_ExportNamedDeclaration declaration = Inr []"

fun visit_ExportDefaultDeclaration :: "node \<Rightarrow> jsstring list" where
  "visit_ExportDefaultDeclaration (FunctionDeclaration ident async params inner) =
     (let name = (case ident of Some n \<Rightarrow> n | None \<Rightarrow> (js ''default''))
      in [js ''export default '' @ async_prefix async @ name @ js ''('' @ extractParams params @ js '')''])"
| "visit_ExportDefaultDeclaration (ArrowFunctionExpression async params inner) =
     [js ''export default '' @ async_prefix async @ js ''function('' @ extractParams params @ js '')'']"
| "visit_ExportDefaultDeclaration (FunctionExpression async params inner) =
     [js ''export default '' @ async_prefix async @ js ''function('' @ extractParams params @ js '')'']"
| "visit_ExportDefaultDeclaration declaration = []"

text \<open>
  \<open>walk.simple\<close>: the walker descends into the children of a node first and calls the
  node's visitor after them, so the signatures of nested declarations precede the
  signature of the declaration that holds them. The result is the list \<open>signatures\<close> the
  visitors have pushed, in order.
\<close>

fun walk :: "bool \<Rightarrow> node \<Rightarrow> error + jsstring list"
  and walks :: "bool \<Rightarrow> node list \<Rightarrow> error + jsstring list" where
  "walk a (FunctionDeclaration ident async params inner) =
     bindE (walks a inner) (\<lambda>sub.
       Inr (sub @ visit_FunctionDeclaration a ident async params))"
| "walk a (FunctionExpression async params inner) = walks a inner"
| "walk a (ArrowFunctionExpression async params inner) = walks a inner"
| "walk a (MethodDefinition k async params inner) =
     bindE (walks a inner) (\<lambda>sub.
       Inr (sub @ visit_MethodDefinition a k async params))"
| "walk a (VariableDeclaration declarations) = walks a declarations"
| "walk a (VariableDeclarator ident nested init) =
     bindE (walks a nested) (\<lambda>left.
     bindE (case init of None \<Rightarrow> Inr [] | Some e \<Rightarrow> walk a e) (\<lambda>sub.
       Inr (left @ sub @ visit_VariableDeclarator a ident init)))"
| "walk a (ExportNamedDeclaration declaration) =
     bindE (case declaration of None \<Rightarrow> Inr [] | Some d \<Rightarrow> walk a d) (\<lambda>sub.
       bindE (visit_ExportNamedDeclaration declaration) (\<lambda>own. Inr (sub @ own)))"
| "walk a (ExportDefaultDeclaration declaration) =
     bindE (walk a declaration) (\<lambda>sub.
       Inr (sub @ visit_ExportDefaultDeclaration declaration))"
| "walk a (Other children) = walks a children"
| "walks a [] = Inr []"
| "walks a (n # ns) =
     bindE (walk a n) (\<lambda>first. bindE (walks a ns) (\<lambda>rest. Inr (first @ rest)))"

subsection \<open>The textual fallback\<close>

text \<open>
  The regular expressions of \<open>extractMethodsFromRawContent\<close> are modelled by matchers: a
  matcher takes the text at a position and returns the captures and the text after the
  match, or \<open>None\<close>. The matchers are greedy and do not backtrack. That is exact for these
  expressions: every repetition (\<open>\s+\<close>, \<open>\s*\<close>, \<open>\w+\<close>, \<open>[^)]*\<close>) is followed by a token
  whose first character lies outside the repeated class, so a shorter repetition can never
  match where the longest one fails, and an optional group that matched cannot be skipped
  with success, since the token after it starts with another character than the group.
  The one place where backtracking matters, \<open>\{\s*([^}]+)\<close> of the export list, is
  written out in \<open>exportListRegex\<close>.
\<close>

definition lit :: "jsstring \<Rightarrow> jsstring \<Rightarrow> jsstring option" where
  "lit l s = (if startsWith s l then Some (drop (length l) s) else None)"

definition spaces1 :: "jsstring \<Rightarrow> jsstring option" where
  "spaces1 s = (if takeWhile isSpace s = [] then None else Some (dropWhile isSpace s))"

definition spaces0 :: "jsstring \<Rightarrow> jsstring" where
  "spaces0 s = dropWhile isSpace s"

definition word1 :: "jsstring \<Rightarrow> (jsstring \<times> jsstring) option" where
  "word1 s = (if takeWhile isWord s = [] then None
              else Some (takeWhile isWord s, dropWhile isWord s))"

definition optional :: "(jsstring \<Rightarrow> jsstring option) \<Rightarrow> jsstring \<Rightarrow> jsstring" where
  "optional re s = (case re s of None \<Rightarrow> s | Some r \<Rightarrow> r)"

text \<open>\<open>export\s+(?:default\s+)?\<close>\<close>

definition re_export :: "jsstring \<Rightarrow> jsstring option" where
  "re_export s =
     Option.bind (lit (js ''export'') s) (\<lambda>s.
     Option.bind (spaces1 s) (\<lambda>s.
     Some (optional (\<lambda>s. Option.bind (lit (js ''default'') s) spaces1) s)))"

text \<open>\<open>async\s+\<close>\<close>

definition re_async :: "jsstring \<Rightarrow> jsstring option" where
  "re_async s = Option.bind (lit (js ''async'') s) spaces1"

text \<open>\<open>\(([^)]*)\)\<close>, capturing the text between the parentheses.\<close>

definition re_params :: "jsstring \<Rightarrow> (jsstring \<times> jsstring) option" where
  "re_params s =
     Option.bind (lit (js ''('') s) (\<lambda>s.
     Option.bind (lit (js '')'') (dropWhile (\<lambda>c. c \<noteq> cu (CHR '')'')) s)) (\<lambda>r.
     Some (takeWhile (\<lambda>c. c \<noteq> cu (CHR '')'')) s, r)))"

text \<open>
  \<open>function\s+NAME\s*\(([^)]*)\)\<close>, where \<open>NAME\<close> is \<open>(\w+)\<close> in the fixed expressions and
  the exported name in the expression built for an export list.
\<close>

definition re_function :: "(jsstring \<Rightarrow> (jsstring \<times> jsstring) option) \<Rightarrow> jsstring \<Rightarrow> ((jsstring \<times> jsstring) \<times> jsstring) option" where
  "re_function re_name s =
     Option.bind (lit (js ''function'') s) (\<lambda>s.
     Option.bind (spaces1 s) (\<lambda>s.
     Option.bind (re_name s) (\<lambda>(name, s).
     Option.bind (re_params (spaces0 s)) (\<lambda>(params, s).
     Some ((name, params), s)))))"

text \<open>\<open>(?:const|let|var)\<close>\<close>

definition re_keyword :: "jsstring \<Rightarrow> jsstring option" where
  "re_keyword s =
     (case lit (js ''const'') s of Some r \<Rightarrow> Some r
      | None \<Rightarrow> (case lit (js ''let'') s of Some r \<Rightarrow> Some r | None \<Rightarrow> lit (js ''var'') s))"

text \<open>
  \<open>(?:const|let|var)\s+NAME\s*=\s*(async\s+)?\(([^)]*)\)\s*=>\<close>; the flag tells whether
  the group \<open>(async\s+)\<close> took part in the match.
\<close>

definition re_arrow :: "(jsstring \<Rightarrow> (jsstring \<times> jsstring) option) \<Rightarrow> jsstring \<Rightarrow> ((jsstring \<times> bool \<times> jsstring) \<times> jsstring) option" where
  "re_arrow re_name s =
     Option.bind (re_keyword s) (\<lambda>s.
     Option.bind (spaces1 s) (\<lambda>s.
     Option.bind (re_name s) (\<lambda>(name, s).
     Option.bind (lit (js ''='') (spaces0 s)) (\<lambda>s.
     (let s = spaces0 s;
          asyncKeyword = (re_async s \<noteq> None);
          s = optional re_async s
      in Option.bind (re_params s) (\<lambda>(params, s).
         Option.bind (lit (js ''=>'') (spaces0 s)) (\<lambda>s.
         Some ((name, asyncKeyword, params), s))))))))"

text \<open>The four fixed expressions.\<close>

definition functionRegex :: "jsstring \<Rightarrow> ((jsstring \<times> jsstring) \<times> jsstring) option" where
  "functionRegex s = re_function word1 (optional re_async (optional re_export s))"

definition arrowRegex :: "jsstring \<Rightarrow> ((jsstring \<times> bool \<times> jsstring) \<times> jsstring) option" where
  "arrowRegex s = re_arrow word1 (optional re_export s)"

definition exportedFunctionRegex :: "jsstring \<Rightarrow> ((jsstring \<times> jsstring) \<times> jsstring) option" where
  "exportedFunctionRegex s =
     Option.bind (re_export s) (\<lambda>s. re_function word1 (optional re_async s))"

definition exportedArrowRegex :: "jsstring \<Rightarrow> ((jsstring \<times> bool \<times> jsstring) \<times> jsstring) option" where
  "exportedArrowRegex s = Option.bind (re_export s) (re_arrow word1)"

text \<open>
  \<open>export\s*\{\s*([^}]+)\s*\}\<close>. After the brace, \<open>[^}]+\<close> takes everything up to the
  closing brace, trailing white space included. When only white space stands between the
  braces, \<open>\s*\<close> gives its last character back to \<open>[^}]+\<close>.
\<close>

definition exportListRegex :: "jsstring \<Rightarrow> (jsstring \<times> jsstring) option" where
  "exportListRegex s =
     Option.bind (lit (js ''export'') s) (\<lambda>s.
     Option.bind (lit (js ''{'') (spaces0 s)) (\<lambda>s.
     (let ws = takeWhile isSpace s;
          r = dropWhile isSpace s;
          body = takeWhile (\<lambda>c. c \<noteq> cu (CHR ''}'')) r
      in if body \<noteq> []
         then Option.bind (lit (js ''}'') (dropWhile (\<lambda>c. c \<noteq> cu (CHR ''}'')) r)) (\<lambda>r. Some (body, r))
         else if ws \<noteq> []
         then Option.bind (lit (js ''}'') r) (\<lambda>r. Some ([last ws], r))
         else None)))"

text \<open>
  The expression built for an exported name,
  \<open>(?:async\s+)?function\s+NAME\s*\(([^)]*)\)|(?:const|let|var)\s+NAME\s*=\s*(?:async\s+)?\(([^)]*)\)\s*=>\<close>,
  for a name of word characters: the capture is \<open>funcMatch[1] || funcMatch[2] || ''\<close>.
\<close>

definition funcDefRegex :: "jsstring \<Rightarrow> jsstring \<Rightarrow> (jsstring \<times> jsstring) option" where
  "funcDefRegex name s =
     (let re_name = (\<lambda>s. map_option (Pair name) (lit name s))
      in case re_function re_name (optional re_async s) of
           Some ((n, params), r) \<Rightarrow> Some (params, r)
         | None \<Rightarrow>
             (case re_arrow re_name s of
                Some ((n, asyncKeyword, params), r) \<Rightarrow> Some (params, r)
              | None \<Rightarrow> None))"

text \<open>
  The loop \<open>while ((match = regex.exec(text)) !== null)\<close> of a global expression: the
  matches from left to right, each search starting where the last match ended. A match is
  the matched text (\<open>match[0]\<close>) with the captures. None of the expressions matches the
  empty string.
\<close>

fun exec_all :: "(jsstring \<Rightarrow> ('c \<times> jsstring) option) \<Rightarrow> jsstring \<Rightarrow> (jsstring \<times> 'c) list" where
  "exec_all re [] = []"
| "exec_all re (c # cs) =
     (case re (c # cs) of
        None \<Rightarrow> exec_all re cs
      | Some (captures, rest) \<Rightarrow>
          (let n = length (c # cs) - length rest
           in (take n (c # cs), captures) # exec_all re (drop (n - 1) cs)))"

text \<open>\<open>s.split(/\s+as\s+/)[0]\<close>: the text before the first \<open>as\<close> between white space.\<close>

fun before_as :: "jsstring \<Rightarrow> jsstring" where
  "before_as [] = []"
| "before_as (c # cs) =
     (if Option.bind (Option.bind (spaces1 (c # cs)) (lit (js ''as''))) spaces1 \<noteq> None
      then [] else c # before_as cs)"

text \<open>A loop whose body may throw: the results in order, or the first exception.\<close>

fun concatMapE :: "('a \<Rightarrow> error + 'b list) \<Rightarrow> 'a list \<Rightarrow> error + 'b list" where
  "concatMapE f [] = Inr []"
| "concatMapE f (x # xs) =
     bindE (f x) (\<lambda>first. bindE (concatMapE f xs) (\<lambda>rest. Inr (first @ rest)))"

text \<open>
  \<open>new RegExp(...)\<close> for an exported name and the first \<open>exec\<close> of it. For a name of word
  characters the expression is \<open>funcDefRegex\<close>. Any other name puts its characters into
  the expression as operators; the constructor may then throw a \<open>SyntaxError\<close>. That case
  is the parameter \<open>dynamicRegExp\<close>: the exception, or the first match if there is one.
\<close>

definition firstFuncDef :: "(jsstring \<Rightarrow> jsstring \<Rightarrow> error + (jsstring \<times> jsstring) option) \<Rightarrow> jsstring \<Rightarrow> jsstring \<Rightarrow> error + (jsstring \<times> jsstring) option" where
  "firstFuncDef dynamicRegExp name fileContent =
     (if list_all isWord name
      then Inr (case exec_all (funcDefRegex name) fileContent of
                  [] \<Rightarrow> None
                | funcMatch # later \<Rightarrow> Some funcMatch)
      else dynamicRegExp name fileContent)"

definition extractMethodsFromRawContent :: "(jsstring \<Rightarrow> jsstring \<Rightarrow> error + (jsstring \<times> jsstring) option) \<Rightarrow> jsstring \<Rightarrow> bool \<Rightarrow> error + jsstring list" where
  "extractMethodsFromRawContent dynamicRegExp fileContent includeAllMethods =
     (if includeAllMethods
      then Inr (map (\<lambda>(fullMatch, name, params).
                  (let isExported = includes_str fullMatch (js ''export'');
                       prefix = (if isExported then (js ''export '') else [])
                   in prefix @ name @ js ''('' @ params @ js '')''))
                  (exec_all functionRegex fileContent)
              @ map (\<lambda>(fullMatch, name, asyncKeyword, params).
                  (let isExported = includes_str fullMatch (js ''export'');
                       prefix = (if isExported then (js ''export '') else [])
                   in prefix @ name @ js ''('' @ params @ js '')''))
                  (exec_all arrowRegex fileContent))
      else
        (let functions = map (\<lambda>(fullMatch, name, params).
                  (let isDefault = includes_str fullMatch (js ''default'');
                       isAsync = includes_str fullMatch (js ''async'');
                       asyncPrefix = (if isAsync then (js ''async '') else []);
                       exportPrefix = (if isDefault then (js ''export default '') else (js ''export ''))
                   in exportPrefix @ asyncPrefix @ name @ js ''('' @ params @ js '')''))
                  (exec_all exportedFunctionRegex fileContent);
             arrows = map (\<lambda>(fullMatch, name, asyncKeyword, params).
                  (let isDefault = includes_str fullMatch (js ''default'');
                       asyncPrefix = (if asyncKeyword then (js ''async '') else []);
                       exportPrefix = (if isDefault then (js ''export default '') else (js ''export ''))
                   in exportPrefix @ asyncPrefix @ name @ js ''('' @ params @ js '')''))
                  (exec_all exportedArrowRegex fileContent)
         in bindE (concatMapE (\<lambda>(fullMatch, exportList).
                     (let names = map (\<lambda>name. trim (before_as (trim name)))
                                      (str_split (cu (CHR '','')) exportList)
                      in concatMapE (\<lambda>name.
                           bindE (firstFuncDef dynamicRegExp name fileContent) (\<lambda>found.
                             case found of
                               None \<Rightarrow> Inr []
                             | Some (funcMatch0, params) \<Rightarrow>
                                 (let isAsync = includes_str funcMatch0 (js ''async'');
                                      asyncPrefix = (if isAsync then (js ''async '') else [])
                                  in Inr [js ''export '' @ asyncPrefix @ name @ js ''('' @ params @ js '')'']))) names))
                   (exec_all exportListRegex fileContent))
             (\<lambda>lists. Inr (functions @ arrows @ lists))))"

subsection \<open>The file system and the run parameters\<close>

text \<open>
  The file system below the scan root is a finite tree. An entry is a file (with what
  \<open>fs.readFileSync\<close> returns for it: its text, or an exception), a directory with its
  entries in the order \<open>fs.readdirSync\<close> lists them, a directory that cannot be listed, or
  an entry that \<open>fs.statSync\<close> fails on (a dangling symbolic link, for one).
\<close>

datatype fsnode =
    File "error + jsstring"
  | Directory "(jsstring \<times> fsnode) list"
  | UnreadableDirectory error
  | Broken error

fun statSync_isDirectory :: "fsnode \<Rightarrow> error + bool" where
  "statSync_isDirectory (File r) = Inr False"
| "statSync_isDirectory (Directory entries) = Inr True"
| "statSync_isDirectory (UnreadableDirectory e) = Inr True"
| "statSync_isDirectory (Broken e) = Inl e"

fun readdirSync :: "fsnode \<Rightarrow> error + (jsstring \<times> fsnode) list" where
  "readdirSync (Directory entries) = Inr entries"
| "readdirSync (UnreadableDirectory e) = Inl e"
| "readdirSync (File r) = Inl (Error (js ''ENOTDIR''))"
| "readdirSync (Broken e) = Inl e"

fun readFileSync :: "fsnode \<Rightarrow> error + jsstring" where
  "readFileSync (File r) = r"
| "readFileSync (Directory entries) = Inl (Error (js ''EISDIR''))"
| "readFileSync (UnreadableDirectory e) = Inl (Error (js ''EISDIR''))"
| "readFileSync (Broken e) = Inl e"

text \<open>
  The module-level variables set from the command line (\<open>maxDepth\<close> is \<open>None\<close> for
  \<open>Infinity\<close>), the configuration file of the scan root, and the two library functions
  the extraction depends on: the parser, and the regular expression built from an exported
  name that is not made of word characters.
\<close>

record env =
  maxDepth :: "int option"
  showMethods :: bool
  showAllMethods :: bool
  customRootDir :: jsstring
  configFile :: config_file
  parse :: "jsstring \<Rightarrow> error + node list"
  dynamicRegExp :: "jsstring \<Rightarrow> jsstring \<Rightarrow> error + (jsstring \<times> jsstring) option"

subsection \<open>Signature extraction\<close>

text \<open>
  \<open>extractMethodSignatures(filePath, includeAllMethods)\<close>; the file at \<open>filePath\<close> is the
  argument \<open>file\<close>. The inner \<open>try\<close> holds the parse and the walk, its \<open>catch\<close> calls the
  fallback; the outer \<open>catch\<close> returns the empty list.
\<close>

definition extractMethodSignatures :: "env \<Rightarrow> fsnode \<Rightarrow> bool \<Rightarrow> error + jsstring list" where
  "extractMethodSignatures e file includeAllMethods =
     try_catch
       (bindE (readFileSync file) (\<lambda>fileContent.
          try_catch
            (bindE (parse e fileContent) (\<lambda>ast. walks includeAllMethods ast))
            (\<lambda>parseError.
               extractMethodsFromRawContent (dynamicRegExp e) fileContent includeAllMethods)))
       (\<lambda>error. Inr [])"

subsection \<open>The earlier revision of the extraction\<close>

text \<open>
  The repository holds a second source file, an earlier revision of \<^verbatim>\<open>tree.js\<close>. Its
  \<open>extractMethodSignatures\<close> has no mode flag: the visitors of function declarations,
  methods and variable declarators always push (a function declaration without the
  \<open>async\<close> prefix), the visitor of a named export looks at function declarations only, the
  visitor of a default export at function declarations only, and the fallback has two fixed
  expressions. \<open>extractParams\<close> is the same function.
\<close>

fun visit_ExportNamedDeclaration0 :: "node option \<Rightarrow> error + jsstring list" where
  "visit_ExportNamedDeclaration0 (Some (FunctionDeclaration ident async params inner)) =
     (case ident of
        None \<Rightarrow> Inl (Error (js ''TypeError: Cannot read properties of null (reading 'name')''))
      | Some name \<Rightarrow> Inr [js ''export '' @ async_prefix async @ name @ js ''('' @ extractParams params @ js '')''])"
| "visit_ExportNamedDeclaration0 declaration = Inr []"

fun visit_ExportDefaultDeclaration0 :: "node \<Rightarrow> jsstring list" where
  "visit_ExportDefaultDeclaration0 (FunctionDeclaration ident async params inner) =
     (let name = (case ident of Some n \<Rightarrow> n | None \<Rightarrow> (js ''default''))
      in [js ''export default '' @ async_prefix async @ name @ js ''('' @ extractParams params @ js '')''])"
| "visit_ExportDefaultDeclaration0 declaration = []"

fun walk0 :: "node \<Rightarrow> error + jsstring list"
  and walks0 :: "node list \<Rightarrow> error + jsstring list" where
  "walk0 (FunctionDeclaration ident async params inner) =
     bindE (walks0 inner) (\<lambda>sub.
       Inr (sub @ (case ident of
                     Some name \<Rightarrow> if name \<noteq> [] then [name @ js ''('' @ extractParams params @ js '')''] else []
                   | None \<Rightarrow> [])))"
| "walk0 (FunctionExpression async params inner) = walks0 inner"
| "walk0 (ArrowFunctionExpression async params inner) = walks0 inner"
| "walk0 (MethodDefinition k async params inner) =
     bindE (walks0 inner) (\<lambda>sub.
       Inr (sub @ visit_MethodDefinition True k async params))"
| "walk0 (VariableDeclaration declarations) = walks0 declarations"
| "walk0 (VariableDeclarator ident nested init) =
     bindE (walks0 nested) (\<lambda>left.
     bindE (case init of None \<Rightarrow> Inr [] | Some e \<Rightarrow> walk0 e) (\<lambda>sub.
       Inr (left @ sub @ visit_VariableDeclarator True ident init)))"
| "walk0 (ExportNamedDeclaration declaration) =
     bindE (case declaration of None \<Rightarrow> Inr [] | Some d \<Rightarrow> walk0 d) (\<lambda>sub.
       bindE (visit_ExportNamedDeclaration0 declaration) (\<lambda>own. Inr (sub @ own)))"
| "walk0 (ExportDefaultDeclaration declaration) =
     bindE (walk0 declaration) (\<lambda>sub.
       Inr (sub @ visit_ExportDefaultDeclaration0 declaration))"
| "walk0 (Other children) = walks0 children"
| "walks0 [] = Inr []"
| "walks0 (n # ns) =
     bindE (walk0 n) (\<lambda>first. bindE (walks0 ns) (\<lambda>rest. Inr (first @ rest)))"

text \<open>\<open>(?:export\s+)?(?:async\s+)?function\s+(\w+)\s*\(([^)]*)\)\<close>\<close>

definition functionRegex0 :: "jsstring \<Rightarrow> ((jsstring \<times> jsstring) \<times> jsstring) option" where
  "functionRegex0 s =
     re_function word1
       (optional re_async (optional (\<lambda>s. Option.bind (lit (js ''export'') s) spaces1) s))"

text \<open>\<open>(?:const|let|var)\s+(\w+)\s*=\s*(?:async\s+)?\(([^)]*)\)\s*=>\<close>\<close>

definition arrowRegex0 :: "jsstring \<Rightarrow> ((jsstring \<times> bool \<times> jsstring) \<times> jsstring) option" where
  "arrowRegex0 s = re_arrow word1 s"

definition extractMethodsFromRawContent0 :: "jsstring \<Rightarrow> jsstring list" where
  "extractMethodsFromRawContent0 fileContent =
     map (\<lambda>(fullMatch, name, params). name @ js ''('' @ params @ js '')'')
         (exec_all functionRegex0 fileContent)
     @ map (\<lambda>(fullMatch, name, asyncKeyword, params). name @ js ''('' @ params @ js '')'')
         (exec_all arrowRegex0 fileContent)"

definition extractMethodSignatures0 :: "env \<Rightarrow> fsnode \<Rightarrow> error + jsstring list" where
  "extractMethodSignatures0 e file =
     try_catch
       (bindE (readFileSync file) (\<lambda>fileContent.
          try_catch
            (bindE (parse e fileContent) (\<lambda>ast. walks0 ast))
            (\<lambda>parseError. Inr (extractMethodsFromRawContent0 fileContent))))
       (\<lambda>error. Inr [])"

subsection \<open>The tree\<close>

text \<open>
  The tree drawing characters \<open>TREE_CHARS\<close>: U+2502, U+2500, U+251C and U+2514, one code
  unit each.
\<close>

definition VERTICAL :: jsstring where "VERTICAL = [0x2502]"
definition HORIZONTAL :: jsstring where "HORIZONTAL = [0x2500]"
definition JUNCTION :: jsstring where "JUNCTION = [0x251C]"
definition CORNER :: jsstring where "CORNER = [0x2514]"

text \<open>
  \<open>path.extname\<close>: the extension of the base name from its last dot, empty when the base
  name has no dot, starts with its only dot, or is \<open>..\<close>.
\<close>

definition extname :: "jsstring \<Rightarrow> jsstring" where
  "extname p =
     (let b = basename p;
          after = rev (takeWhile (\<lambda>c. c \<noteq> cu (CHR ''.'')) (rev b))
      in if cu (CHR ''.'') \<notin> set b then []
         else if length after + 1 = length b then []
         else if b = (js ''..'') then []
         else cu (CHR ''.'') # after)"

text \<open>\<open>fs.statSync(path.join(dirPath, item)).isDirectory()\<close> for an entry of the listing.\<close>

definition stat_item :: "(jsstring \<times> fsnode) list \<Rightarrow> jsstring \<Rightarrow> error + bool" where
  "stat_item entries item =
     (case map_of entries item of
        None \<Rightarrow> Inl (Error (js ''ENOENT''))
      | Some n \<Rightarrow> statSync_isDirectory n)"

text \<open>\<open>Array.prototype.filter\<close> with a predicate that may throw.\<close>

fun filterE :: "('a \<Rightarrow> error + bool) \<Rightarrow> 'a list \<Rightarrow> error + 'a list" where
  "filterE p [] = Inr []"
| "filterE p (x # xs) =
     bindE (p x) (\<lambda>keep. bindE (filterE p xs) (\<lambda>rest. Inr (if keep then x # rest else rest)))"

text \<open>
  The two filters of \<open>generateTree\<close>, each followed by \<open>.sort()\<close>, which orders strings
  by their code units.
\<close>

definition files_of :: "jsstring list \<Rightarrow> (jsstring \<times> fsnode) list \<Rightarrow> jsstring \<Rightarrow> error + jsstring list" where
  "files_of EXCLUDE_FILES entries dirPath =
     bindE (filterE (\<lambda>item.
              (let itemPath = path_join dirPath item
               in bindE (stat_item entries item) (\<lambda>isDirectory.
                    Inr (\<not> isDirectory \<and> \<not> startsWith item (js ''.'')
                         \<and> \<not> shouldExcludeFile EXCLUDE_FILES itemPath))))
              (map fst entries))
       (\<lambda>files. Inr (sort files))"

definition dirs_of :: "jsstring list \<Rightarrow> (jsstring \<times> fsnode) list \<Rightarrow> jsstring \<Rightarrow> error + jsstring list" where
  "dirs_of EXCLUDE_PATHS entries relativePath =
     bindE (filterE (\<lambda>item.
              (let itemRelativePath = path_join relativePath item
               in bindE (stat_item entries item) (\<lambda>isDirectory.
                    Inr (isDirectory \<and> \<not> startsWith item (js ''.'')
                         \<and> \<not> shouldExcludePath EXCLUDE_PATHS itemRelativePath))))
              (map fst entries))
       (\<lambda>dirs. Inr (sort dirs))"

text \<open>\<open>const allItems = [...dirs, ...files]\<close>; the filter of the files runs first.\<close>

definition allItems_of :: "config \<Rightarrow> (jsstring \<times> fsnode) list \<Rightarrow> jsstring \<Rightarrow> jsstring \<Rightarrow> error + jsstring list" where
  "allItems_of cfg entries dirPath relativePath =
     bindE (files_of (excludeFiles cfg) entries dirPath) (\<lambda>files.
     bindE (dirs_of (excludePaths cfg) entries relativePath) (\<lambda>dirs.
     Inr (dirs @ files)))"

text \<open>The lines of the signatures under a file (\<open>methods.forEach\<close>).\<close>

definition render_methods :: "jsstring \<Rightarrow> bool \<Rightarrow> jsstring list \<Rightarrow> jsstring" where
  "render_methods prefix isLastItem methods =
     (let methodPrefix = prefix @ (if isLastItem then (js ''   '') else VERTICAL @ js ''  '')
      in concat (map (\<lambda>(methodIndex, method).
           (let isLastMethod = (methodIndex = length methods - 1);
                methodBranch = (if isLastMethod then CORNER else JUNCTION)
            in methodPrefix @ methodBranch @ HORIZONTAL @ js '' '' @ method @ [cu (CHR 0x0A)]))
           (enumerate 0 methods)))"

text \<open>
  The \<open>else\<close> branch of the loop body: what is appended to the output after the name of
  a file. The \<open>try\<close> block has written the line count when the extraction starts, so an
  exception of the extraction would add the marker of the \<open>catch\<close> block after it.
\<close>

definition render_file :: "env \<Rightarrow> config \<Rightarrow> fsnode \<Rightarrow> jsstring \<Rightarrow> jsstring \<Rightarrow> bool \<Rightarrow> jsstring" where
  "render_file e cfg file itemPath prefix isLastItem =
     (case bindE (statSync_isDirectory file) (\<lambda>stats. readFileSync file) of
        Inl error \<Rightarrow> (js '' (error reading file)'') @ [cu (CHR 0x0A)]
      | Inr fileContent \<Rightarrow>
          (let lineCount = length (str_split (cu (CHR 0x0A)) fileContent);
               counted = (js '' ('') @ string_of_nat lineCount @ js '' lines)'' @ [cu (CHR 0x0A)]
           in if showMethods e
              then (let ext = extname itemPath
                    in if ext \<in> set (includeExtensions cfg)
                          \<and> (ext = (js ''.js'') \<or> ext = (js ''.mjs'') \<or> ext = (js ''.cjs''))
                       then (case extractMethodSignatures e file (showAllMethods e) of
                               Inl error \<Rightarrow> counted @ js '' (error reading file)'' @ [cu (CHR 0x0A)]
                             | Inr methods \<Rightarrow>
                                 if length methods > 0
                                 then counted @ render_methods prefix isLastItem methods
                                 else counted)
                       else counted)
              else counted))"

text \<open>\<open>level > maxDepth\<close>\<close>

definition beyond :: "nat \<Rightarrow> int option \<Rightarrow> bool" where
  "beyond level depth = (case depth of None \<Rightarrow> False | Some d \<Rightarrow> int level > d)"

lemma bindE_cong [fundef_cong]:
  "m = m' \<Longrightarrow> (\<And>v. m' = Inr v \<Longrightarrow> f v = f' v) \<Longrightarrow> bindE m f = bindE m' f'"
  by (auto simp: bindE_def split: sum.splits)

lemma concatMapE_cong [fundef_cong]:
  "xs = ys \<Longrightarrow> (\<And>x. x \<in> set ys \<Longrightarrow> f x = g x) \<Longrightarrow> concatMapE f xs = concatMapE g ys"
  by (induction ys arbitrary: xs) (auto simp: bindE_def split: sum.splits)

lemma size_of_entry:
  "map_of entries item = Some child \<Longrightarrow> size child < size (Directory entries)"
proof (induction entries)
  case Nil
  then show ?case by simp
next
  case (Cons a entries)
  then show ?case by (cases a) (auto split: if_splits)
qed

text \<open>
  \<open>generateTree(dirPath, level, relativePath, isLast, prefix)\<close>; the directory at
  \<open>dirPath\<close> is the argument \<open>dir\<close>, and the parameter \<open>isLast\<close>, which the function
  never reads, is left out. The configuration is loaded anew in every call. An exception
  of \<open>readdirSync\<close>, of a \<open>statSync\<close> outside the \<open>try\<close> block or of a recursive call leaves
  the function.
\<close>

function generateTree :: "env \<Rightarrow> fsnode \<Rightarrow> jsstring \<Rightarrow> nat \<Rightarrow> jsstring \<Rightarrow> jsstring \<Rightarrow> error + jsstring" where
  "generateTree e dir dirPath level relativePath prefix =
     (let cfg = fst (loadConfig (configFile e) (customRootDir e))
      in if beyond level (maxDepth e) then Inr []
         else if level > 0 \<and> shouldExcludePath (excludePaths cfg) relativePath then Inr []
         else
           bindE (readdirSync dir) (\<lambda>entries.
           bindE (allItems_of cfg entries dirPath relativePath) (\<lambda>allItems.
           concatMapE (\<lambda>(index, item).
             (let itemPath = path_join dirPath item;
                  itemRelativePath = path_join relativePath item;
                  isLastItem = (index = length allItems - 1)
              in bindE (stat_item entries item) (\<lambda>isDirectory.
                 (let branch = (if isLastItem then CORNER else JUNCTION);
                      connector = HORIZONTAL @ HORIZONTAL;
                      line = prefix @ branch @ connector @ js '' '' @ item
                  in case map_of entries item of
                       None \<Rightarrow> Inl (Error (js ''ENOENT''))
                     | Some child \<Rightarrow>
                         if isDirectory
                         then (let newPrefix = prefix @ (if isLastItem then (js ''   '') else VERTICAL @ js ''  '')
                               in bindE (generateTree e child itemPath (level + 1) itemRelativePath newPrefix)
                                    (\<lambda>below. Inr (line @ js ''/'' @ [cu (CHR 0x0A)] @ below)))
                         else Inr (line @ render_file e cfg child itemPath prefix isLastItem)))))
             (enumerate 0 allItems))))"
  by pat_completeness auto
termination
proof (relation "measure (\<lambda>(e, dir, dirPath, level, relativePath, prefix). size dir)")
  show "wf (measure (\<lambda>(e, dir, dirPath, level, relativePath, prefix). size dir))" by simp
next
  fix e :: env and dir child :: fsnode and level :: nat
    and dirPath relativePath prefix itemPath itemRelativePath newPrefix item :: jsstring
    and entries :: "(jsstring \<times> fsnode) list"
  assume "readdirSync dir = Inr entries" and "map_of entries item = Some child"
  then have "size child < size dir"
    by (cases dir) (auto dest: size_of_entry)
  then show "((e, child, itemPath, level + 1, itemRelativePath, newPrefix),
              (e, dir, dirPath, level, relativePath, prefix))
             \<in> measure (\<lambda>(e, dir, dirPath, level, relativePath, prefix). size dir)"
    by simp
qed

declare generateTree.simps [simp del]

text \<open>
  The run of the examples: no depth limit, signatures shown, exported declarations only,
  no configuration file. The texts that reach the parser in the examples are not complete
  JavaScript, so the parser of this run rejects its input; none of them has an export list
  with a name that would need \<open>dynamicRegExp\<close>.
\<close>

definition example_env :: env where
  "example_env =
     \<lparr> maxDepth = None, showMethods = True, showAllMethods = False,
       customRootDir = (js ''/proj''), configFile = NoConfigFile,
       parse = (\<lambda>text. Inl (Error (js ''SyntaxError''))),
       dynamicRegExp = (\<lambda>name text. Inr None) \<rparr>"

subsection \<open>Notions used in the properties\<close>

text \<open>
  The specification's notion of a \<open>/\<close>-delimited segment, stated without \<open>split\<close>:
  a maximal \<open>/\<close>-free stretch of the path.
\<close>

definition is_segment :: "jsstring \<Rightarrow> jsstring \<Rightarrow> bool" where
  "is_segment seg p \<longleftrightarrow>
     (\<exists>pre post. p = pre @ seg @ post \<and> cu (CHR ''/'') \<notin> set seg
        \<and> (pre = [] \<or> last pre = cu (CHR ''/'')) \<and> (post = [] \<or> hd post = cu (CHR ''/'')))"

text \<open>The configuration a run loads.\<close>

definition config_of :: "env \<Rightarrow> config" where
  "config_of e = fst (loadConfig (configFile e) (customRootDir e))"

text \<open>
  The entries of a directory that survive the filters, in the order of the directory: the
  subdirectories that are not hidden and not excluded by their path, and the other
  entries that are not hidden and not excluded by their name.
\<close>

definition visible_dirs :: "config \<Rightarrow> (jsstring \<times> fsnode) list \<Rightarrow> jsstring \<Rightarrow> jsstring list" where
  "visible_dirs cfg entries relativePath =
     filter (\<lambda>item. stat_item entries item = Inr True
                    \<and> \<not> startsWith item (js ''.'')
                    \<and> \<not> shouldExcludePath (excludePaths cfg) (path_join relativePath item))
            (map fst entries)"

definition visible_files :: "config \<Rightarrow> (jsstring \<times> fsnode) list \<Rightarrow> jsstring \<Rightarrow> jsstring list" where
  "visible_files cfg entries dirPath =
     filter (\<lambda>item. stat_item entries item = Inr False
                    \<and> \<not> startsWith item (js ''.'')
                    \<and> \<not> shouldExcludeFile (excludeFiles cfg) (path_join dirPath item))
            (map fst entries)"

text \<open>
  The line that names an entry, and the blocks of the output: for a directory its line,
  closed by a separator, and the tree printed for it; for a file its line and what
  \<open>render_file\<close> appends.
\<close>

definition entry_line :: "jsstring \<Rightarrow> bool \<Rightarrow> jsstring \<Rightarrow> jsstring" where
  "entry_line prefix isLastItem item =
     prefix @ (if isLastItem then CORNER else JUNCTION) @ HORIZONTAL @ HORIZONTAL @ js '' '' @ item"

definition dir_block :: "jsstring \<Rightarrow> bool \<Rightarrow> jsstring \<Rightarrow> jsstring \<Rightarrow> jsstring" where
  "dir_block prefix isLastItem item below =
     entry_line prefix isLastItem item @ js ''/'' @ [cu (CHR 0x0A)] @ below"

definition file_block :: "env \<Rightarrow> (jsstring \<times> fsnode) list \<Rightarrow> jsstring \<Rightarrow> jsstring \<Rightarrow> bool \<Rightarrow> jsstring \<Rightarrow> jsstring" where
  "file_block e entries dirPath prefix isLastItem item =
     entry_line prefix isLastItem item
     @ (case map_of entries item of
          Some child \<Rightarrow> render_file e (config_of e) child (path_join dirPath item) prefix isLastItem
        | None \<Rightarrow> [])"

text \<open>The line count of a file, as \<open>render_file\<close> prints it.\<close>

definition counted :: "jsstring \<Rightarrow> jsstring" where
  "counted fileContent =
     js '' ('' @ string_of_nat (length (str_split (cu (CHR 0x0A)) fileContent)) @ js '' lines)''
     @ [cu (CHR 0x0A)]"

text \<open>
  A tree of the file system in which every directory can be listed and \<open>fs.statSync\<close>
  succeeds on every entry.
\<close>

fun healthy :: "fsnode \<Rightarrow> bool" where
  "healthy (File r) = True"
| "healthy (Directory entries) = list_all (\<lambda>entry. healthy (snd entry)) entries"
| "healthy (UnreadableDirectory err) = False"
| "healthy (Broken err) = False"




section \<open>Properties\<close>

subsection \<open>C1: the path-exclusion predicate\<close>

lemma str_split_nonempty: "str_split c s \<noteq> []"
  by (induction s) (auto simp: Let_def)

lemma hd_str_split: "hd (str_split c s) = takeWhile (\<lambda>x. x \<noteq> c) s"
  by (induction s) (auto simp: Let_def)

lemma takeWhile_stop:
  "c \<notin> set seg \<Longrightarrow> post = [] \<or> hd post = c \<Longrightarrow> takeWhile (\<lambda>x. x \<noteq> c) (seg @ post) = seg"
  by (induction seg) (cases post; auto)+

lemma first_segment:
  "(\<exists>post. s = seg @ post \<and> c \<notin> set seg \<and> (post = [] \<or> hd post = c))
     \<longleftrightarrow> seg = takeWhile (\<lambda>x. x \<noteq> c) s"
proof
  assume "\<exists>post. s = seg @ post \<and> c \<notin> set seg \<and> (post = [] \<or> hd post = c)"
  then obtain post where p: "s = seg @ post" "c \<notin> set seg" "post = [] \<or> hd post = c" by blast
  from p(2,3) have "takeWhile (\<lambda>x. x \<noteq> c) (seg @ post) = seg"
    by (rule takeWhile_stop)
  with p(1) show "seg = takeWhile (\<lambda>x. x \<noteq> c) s" by simp
next
  assume s: "seg = takeWhile (\<lambda>x. x \<noteq> c) s"
  have "s = seg @ dropWhile (\<lambda>x. x \<noteq> c) s" by (simp add: s)
  moreover have "c \<notin> set seg" using s by (metis (mono_tags, lifting) set_takeWhileD)
  moreover have "dropWhile (\<lambda>x. x \<noteq> c) s = [] \<or> hd (dropWhile (\<lambda>x. x \<noteq> c) s) = c"
    using hd_dropWhile[of "\<lambda>x. x \<noteq> c" s] by auto
  ultimately show "\<exists>post. s = seg @ post \<and> c \<notin> set seg \<and> (post = [] \<or> hd post = c)" by blast
qed

lemma later_segment:
  "seg \<in> set (tl (str_split c s)) \<longleftrightarrow>
     (\<exists>pre post. s = pre @ c # seg @ post \<and> c \<notin> set seg \<and> (post = [] \<or> hd post = c))"
proof (induction s)
  case Nil
  then show ?case by simp
next
  case (Cons x xs)
  show ?case
  proof (cases "x = c")
    case True
    have "seg \<in> set (tl (str_split c (x # xs))) \<longleftrightarrow> seg \<in> set (str_split c xs)"
      using True by (simp add: Let_def)
    also have "\<dots> \<longleftrightarrow> seg = hd (str_split c xs) \<or> seg \<in> set (tl (str_split c xs))"
      using str_split_nonempty[of c xs] by (cases "str_split c xs") auto
    also have "\<dots> \<longleftrightarrow> (\<exists>post. xs = seg @ post \<and> c \<notin> set seg \<and> (post = [] \<or> hd post = c))
        \<or> (\<exists>pre post. xs = pre @ c # seg @ post \<and> c \<notin> set seg \<and> (post = [] \<or> hd post = c))"
      by (simp only: Cons.IH hd_str_split first_segment)
    also have "\<dots> \<longleftrightarrow> (\<exists>pre post. x # xs = pre @ c # seg @ post \<and> c \<notin> set seg \<and> (post = [] \<or> hd post = c))"
      using True by (auto simp: Cons_eq_append_conv) 
    finally show ?thesis .
  next
    case False
    have "seg \<in> set (tl (str_split c (x # xs))) \<longleftrightarrow> seg \<in> set (tl (str_split c xs))"
      using False by (simp add: Let_def)
    also have "\<dots> \<longleftrightarrow> (\<exists>pre post. xs = pre @ c # seg @ post \<and> c \<notin> set seg \<and> (post = [] \<or> hd post = c))"
      by (rule Cons.IH)
    also have "\<dots> \<longleftrightarrow> (\<exists>pre post. x # xs = pre @ c # seg @ post \<and> c \<notin> set seg \<and> (post = [] \<or> hd post = c))"
      using False by (auto simp: Cons_eq_append_conv)
    finally show ?thesis .
  qed
qed

lemma set_str_split_segments:
  "seg \<in> set (str_split (cu (CHR ''/'')) p) \<longleftrightarrow> is_segment seg p"
proof -
  let ?c = "cu (CHR ''/'')"
  have "seg \<in> set (str_split ?c p) \<longleftrightarrow> seg = hd (str_split ?c p) \<or> seg \<in> set (tl (str_split ?c p))"
    using str_split_nonempty[of ?c p] by (cases "str_split ?c p") auto
  also have "\<dots> \<longleftrightarrow> (\<exists>post. p = seg @ post \<and> ?c \<notin> set seg \<and> (post = [] \<or> hd post = ?c))
        \<or> (\<exists>pre post. p = pre @ ?c # seg @ post \<and> ?c \<notin> set seg \<and> (post = [] \<or> hd post = ?c))"
    by (simp only: later_segment hd_str_split first_segment)
  also have "\<dots> \<longleftrightarrow> is_segment seg p"
  proof
    assume "(\<exists>post. p = seg @ post \<and> ?c \<notin> set seg \<and> (post = [] \<or> hd post = ?c))
        \<or> (\<exists>pre post. p = pre @ ?c # seg @ post \<and> ?c \<notin> set seg \<and> (post = [] \<or> hd post = ?c))"
    then show "is_segment seg p"
    proof
      assume "\<exists>post. p = seg @ post \<and> ?c \<notin> set seg \<and> (post = [] \<or> hd post = ?c)"
      then obtain post where "p = [] @ seg @ post" "?c \<notin> set seg" "post = [] \<or> hd post = ?c"
        by auto
      then show ?thesis unfolding is_segment_def by blast
    next
      assume "\<exists>pre post. p = pre @ ?c # seg @ post \<and> ?c \<notin> set seg \<and> (post = [] \<or> hd post = ?c)"
      then obtain pre post where "p = (pre @ [?c]) @ seg @ post" "?c \<notin> set seg"
        "post = [] \<or> hd post = ?c" "last (pre @ [?c]) = ?c"
        by auto
      then show ?thesis unfolding is_segment_def by blast
    qed
  next
    assume "is_segment seg p"
    then obtain pre post where h: "p = pre @ seg @ post" "?c \<notin> set seg"
      "pre = [] \<or> last pre = ?c" "post = [] \<or> hd post = ?c"
      unfolding is_segment_def by blast
    show "(\<exists>post. p = seg @ post \<and> ?c \<notin> set seg \<and> (post = [] \<or> hd post = ?c))
        \<or> (\<exists>pre post. p = pre @ ?c # seg @ post \<and> ?c \<notin> set seg \<and> (post = [] \<or> hd post = ?c))"
    proof (cases pre rule: rev_cases)
      case Nil
      with h show ?thesis by auto
    next
      case (snoc pre' y)
      with h have "p = pre' @ ?c # seg @ post" by simp
      with h show ?thesis by blast
    qed
  qed
  finally show ?thesis .
qed

lemma startsWith_iff: "startsWith s p \<longleftrightarrow> (\<exists>rest. s = p @ rest)"
  unfolding startsWith_def
  by (metis append_eq_conv_conj append_take_drop_id)

text \<open>
  Claim C1. \<open>shouldExcludePath\<close> is true exactly when some rule of the excluded-path list
  equals the path, or the path starts with the rule followed by \<open>/\<close>, or the rule is a
  whole \<open>/\<close>-delimited segment of the path. A rule that matches only part of a segment
  does not exclude: the rule \<open>lib\<close> leaves the path \<open>library\<close> visible.
\<close>

theorem shouldExcludePath_iff:
  "(shouldExcludePath rules p \<longleftrightarrow>
     (\<exists>rule \<in> set rules. p = rule \<or> (\<exists>rest. p = rule @ js ''/'' @ rest) \<or> is_segment rule p))
   \<and> \<not> shouldExcludePath [js ''lib''] (js ''library'')"
proof
  show "shouldExcludePath rules p \<longleftrightarrow>
     (\<exists>rule \<in> set rules. p = rule \<or> (\<exists>rest. p = rule @ js ''/'' @ rest) \<or> is_segment rule p)"
    unfolding shouldExcludePath_def list_ex_iff Let_def
    by (auto simp: startsWith_iff set_str_split_segments[simplified])
  show "\<not> shouldExcludePath [js ''lib''] (js ''library'')"
    by (simp add: shouldExcludePath_def startsWith_def Let_def)
qed


theorem shouldExcludePath_iff_witness:
  "shouldExcludePath [js ''build''] (js ''src/build/output.js'')
   \<and> is_segment (js ''build'') (js ''src/build/output.js'')
   \<and> \<not> shouldExcludePath [js ''build''] (js ''buildtools/x.js'')"
proof -
  have a: "shouldExcludePath [js ''build''] (js ''src/build/output.js'')"
    by (simp add: shouldExcludePath_def startsWith_def Let_def)
  have b: "\<not> shouldExcludePath [js ''build''] (js ''buildtools/x.js'')"
    by (simp add: shouldExcludePath_def startsWith_def Let_def)
  from a shouldExcludePath_iff[of "[js ''build'']" "(js ''src/build/output.js'')"]
  have "is_segment (js ''build'') (js ''src/build/output.js'')" by simp
  with a b show ?thesis by simp
qed

subsection \<open>C4: merging the configuration\<close>

text \<open>
  Claim C4 says that all three sets of the resolved configuration hold the defaults with
  the entries of the override appended. That fails for the included extensions: a
  configuration file that lists \<open>.ts\<close> as its only extension leaves \<open>.js\<close> out of the
  resolved set.
\<close>

theorem loadConfig_extensions_replaced:
  "\<not> set (includeExtensions DEFAULT_CONFIG)
       \<subseteq> set (includeExtensions (fst (loadConfig
               (ConfigParsed \<lparr> json_excludePaths = None, json_excludeDirs = None,
                               json_excludeFiles = None,
                               json_includeExtensions = Some [js ''.ts''] \<rparr>) (js ''/proj''))))"
  by (simp add: loadConfig_def existsSync_def bindE_def DEFAULT_CONFIG_def)

text \<open>
  Claim C4, amended. For a configuration file that is read and parsed, the excluded paths
  are the defaults followed by the file's \<open>excludePaths\<close> and then its \<open>excludeDirs\<close>, the
  excluded files are the defaults followed by the file's \<open>excludeFiles\<close>, and every default
  of these two lists stays a member. The included extensions are the file's
  \<open>includeExtensions\<close> when it has the field, and the defaults otherwise. Without a
  configuration file, or with one that cannot be read or parsed, the result is the default
  configuration.
\<close>

theorem loadConfig_merge:
  "excludePaths (fst (loadConfig (ConfigParsed j) d))
     = excludePaths DEFAULT_CONFIG @ or_empty (json_excludePaths j) @ or_empty (json_excludeDirs j)
   \<and> excludeFiles (fst (loadConfig (ConfigParsed j) d))
     = excludeFiles DEFAULT_CONFIG @ or_empty (json_excludeFiles j)
   \<and> includeExtensions (fst (loadConfig (ConfigParsed j) d))
     = (case json_includeExtensions j of
          Some exts \<Rightarrow> exts
        | None \<Rightarrow> includeExtensions DEFAULT_CONFIG)
   \<and> set (excludePaths DEFAULT_CONFIG) \<subseteq> set (excludePaths (fst (loadConfig (ConfigParsed j) d)))
   \<and> set (excludeFiles DEFAULT_CONFIG) \<subseteq> set (excludeFiles (fst (loadConfig (ConfigParsed j) d)))
   \<and> fst (loadConfig NoConfigFile d) = DEFAULT_CONFIG
   \<and> fst (loadConfig (ConfigUnreadable err) d) = DEFAULT_CONFIG
   \<and> fst (loadConfig (ConfigMalformed err) d) = DEFAULT_CONFIG"
  by (cases err) (simp add: loadConfig_def existsSync_def bindE_def)

subsection \<open>C5: default exports\<close>

text \<open>
  Claim C5 gives every anonymous default export the name \<open>default\<close>. That fails for a
  default export that is an arrow function or a function expression: for
  \<open>export default () => {}\<close> the visitor writes the word \<open>function\<close> where the name
  stands.
\<close>

theorem default_export_arrow_not_named_default:
  "walks False [ExportDefaultDeclaration (ArrowFunctionExpression False [] [])]
     = Inr [js ''export default function()'']
   \<and> walks False [ExportDefaultDeclaration (ArrowFunctionExpression False [] [])]
     \<noteq> Inr [js ''export default default()'']"
  by (simp add: bindE_def async_prefix_def extractParams_def)

text \<open>
  Claim C5, amended. In either mode the visitor of a default export pushes exactly one
  signature, after the signatures of the nodes below the export, and that signature
  starts with \<open>export default\<close> and carries the \<open>async\<close> marker of the declaration itself.
  For a function declaration the name is the declared name, and the literal \<open>default\<close>
  when the declaration is anonymous; for an arrow function or a function expression the
  word \<open>function\<close> stands in place of the name. So \<open>export default async function () {}\<close>
  yields the one signature \<open>export default async default()\<close>.
\<close>

theorem default_export_signature:
  "walk a (ExportDefaultDeclaration (FunctionDeclaration None async params inner))
     = bindE (walks a inner) (\<lambda>sub. Inr (sub @
         [js ''export default '' @ async_prefix async @ js ''default'' @ js ''('' @ extractParams params @ js '')'']))
   \<and> walk a (ExportDefaultDeclaration (FunctionDeclaration (Some name) async params inner))
     = bindE (walks a inner) (\<lambda>sub. Inr (sub @ visit_FunctionDeclaration a (Some name) async params @
         [js ''export default '' @ async_prefix async @ name @ js ''('' @ extractParams params @ js '')'']))
   \<and> walk a (ExportDefaultDeclaration (ArrowFunctionExpression async params inner))
     = bindE (walks a inner) (\<lambda>sub. Inr (sub @
         [js ''export default '' @ async_prefix async @ js ''function'' @ js ''('' @ extractParams params @ js '')'']))
   \<and> walk a (ExportDefaultDeclaration (FunctionExpression async params inner))
     = bindE (walks a inner) (\<lambda>sub. Inr (sub @
         [js ''export default '' @ async_prefix async @ js ''function'' @ js ''('' @ extractParams params @ js '')'']))
   \<and> walks a [ExportDefaultDeclaration (FunctionDeclaration None True [] [])]
     = Inr [js ''export default async default()'']"
  by (simp add: bindE_def visit_FunctionDeclaration_def async_prefix_def extractParams_def
           split: sum.splits)

subsection \<open>C9: exported declarations in the mode of all declarations\<close>



subsection \<open>C3: the extraction never throws\<close>

text \<open>
  Claim C3. \<open>extractMethodSignatures\<close> returns a list of signatures for every file and
  either mode, whatever the file system, the parser, the walk and the fallback do: a file
  that cannot be read gives the empty list, a failed parse (or an exception of a visitor)
  gives the result of the fallback, an exception of the fallback gives the empty list. No
  exception reaches the caller. The earlier revision of the function returns a list for
  every file as well.
\<close>

theorem extractMethodSignatures_never_throws:
  "(\<exists>signatures. extractMethodSignatures e file includeAllMethods = Inr signatures)
   \<and> extractMethodSignatures e file includeAllMethods =
       (case readFileSync file of
          Inl error \<Rightarrow> Inr []
        | Inr fileContent \<Rightarrow>
            (case bindE (parse e fileContent) (walks includeAllMethods) of
               Inr signatures \<Rightarrow> Inr signatures
             | Inl parseError \<Rightarrow>
                 (case extractMethodsFromRawContent (dynamicRegExp e) fileContent includeAllMethods of
                    Inr signatures \<Rightarrow> Inr signatures
                  | Inl error \<Rightarrow> Inr [])))
   \<and> (\<exists>signatures. extractMethodSignatures0 e file = Inr signatures)"
  by (simp add: extractMethodSignatures_def extractMethodSignatures0_def try_catch_def bindE_def
           split: sum.splits)

subsection \<open>Lemmas about the listing and the loops\<close>

lemma filterE_Inr:
  "filterE p xs = Inr ys \<Longrightarrow> ys = filter (\<lambda>x. p x = Inr True) xs"
  by (induction xs arbitrary: ys) (auto simp: bindE_def split: sum.splits if_splits)

lemma files_of_Inr:
  assumes "files_of X entries dirPath = Inr files"
  shows "files = sort (filter (\<lambda>item. stat_item entries item = Inr False
                   \<and> \<not> startsWith item (js ''.'')
                   \<and> \<not> shouldExcludeFile X (path_join dirPath item)) (map fst entries))"
proof -
  let ?p = "\<lambda>item. (let itemPath = path_join dirPath item
               in bindE (stat_item entries item) (\<lambda>isDirectory.
                    Inr (\<not> isDirectory \<and> \<not> startsWith item (js ''.'')
                         \<and> \<not> shouldExcludeFile X itemPath)))"
  from assms obtain fs where fs: "filterE ?p (map fst entries) = Inr fs" "files = sort fs"
    by (auto simp: files_of_def bindE_def split: sum.splits)
  have "(?p item = Inr True) = (stat_item entries item = Inr False
                   \<and> \<not> startsWith item (js ''.'')
                   \<and> \<not> shouldExcludeFile X (path_join dirPath item))" for item
    by (auto simp: bindE_def Let_def split: sum.splits)
  with filterE_Inr[OF fs(1)] fs(2) show ?thesis by simp
qed

lemma dirs_of_Inr:
  assumes "dirs_of P entries relativePath = Inr dirs"
  shows "dirs = sort (filter (\<lambda>item. stat_item entries item = Inr True
                   \<and> \<not> startsWith item (js ''.'')
                   \<and> \<not> shouldExcludePath P (path_join relativePath item)) (map fst entries))"
proof -
  let ?p = "\<lambda>item. (let itemRelativePath = path_join relativePath item
               in bindE (stat_item entries item) (\<lambda>isDirectory.
                    Inr (isDirectory \<and> \<not> startsWith item (js ''.'')
                         \<and> \<not> shouldExcludePath P itemRelativePath)))"
  from assms obtain ds where ds: "filterE ?p (map fst entries) = Inr ds" "dirs = sort ds"
    by (auto simp: dirs_of_def bindE_def split: sum.splits)
  have "(?p item = Inr True) = (stat_item entries item = Inr True
                   \<and> \<not> startsWith item (js ''.'')
                   \<and> \<not> shouldExcludePath P (path_join relativePath item))" for item
    by (auto simp: bindE_def Let_def split: sum.splits)
  with filterE_Inr[OF ds(1)] ds(2) show ?thesis by simp
qed

lemma extractMethodSignatures_Inr:
  "\<exists>methods. extractMethodSignatures e file includeAllMethods = Inr methods"
  by (simp add: extractMethodSignatures_def try_catch_def bindE_def split: sum.splits)

lemma render_methods_Nil: "render_methods prefix isLastItem [] = []"
  by (simp add: render_methods_def)

lemma concatMapE_append_Inr:
  "concatMapE f (xs @ ys) = Inr out \<Longrightarrow>
     \<exists>a b. concatMapE f xs = Inr a \<and> concatMapE f ys = Inr b \<and> out = a @ b"
  by (induction xs arbitrary: out) (auto simp: bindE_def split: sum.splits)

lemma concatMapE_all_Inr:
  "(\<And>x. x \<in> set xs \<Longrightarrow> f x = Inr (g x)) \<Longrightarrow> concatMapE f xs = Inr (concat (map g xs))"
  by (induction xs) (auto simp: bindE_def)

lemma concatMapE_total:
  "(\<And>x. x \<in> set xs \<Longrightarrow> \<exists>b. f x = Inr b) \<Longrightarrow> \<exists>out. concatMapE f xs = Inr out"
proof (induction xs)
  case Nil
  then show ?case by simp
next
  case (Cons x xs)
  from Cons.prems[of x] obtain b where b: "f x = Inr b" by auto
  from Cons.IH Cons.prems obtain out where "concatMapE f xs = Inr out" by auto
  with b show ?case by (simp add: bindE_def)
qed

lemma concatMapE_zip:
  assumes "concatMapE f xs = Inr out"
    and "\<And>x b. x \<in> set xs \<Longrightarrow> f x = Inr b \<Longrightarrow> \<exists>y. P x y \<and> b = g x y"
  shows "\<exists>ys. length ys = length xs \<and> (\<forall>k < length xs. P (xs ! k) (ys ! k))
           \<and> out = concat (map (\<lambda>(x, y). g x y) (zip xs ys))"
  using assms
proof (induction xs arbitrary: out)
  case Nil
  then show ?case by simp
next
  case (Cons x xs)
  from Cons.prems(1) obtain b rest where b: "f x = Inr b" "concatMapE f xs = Inr rest" "out = b @ rest"
    by (auto simp: bindE_def split: sum.splits)
  from Cons.prems(2)[of x b] b(1) obtain y where y: "P x y" "b = g x y" by auto
  from Cons.IH[OF b(2)] Cons.prems(2) obtain ys where ys: "length ys = length xs"
    "\<forall>k < length xs. P (xs ! k) (ys ! k)" "rest = concat (map (\<lambda>(x, y). g x y) (zip xs ys))"
    by auto
  have "\<forall>k < length (x # xs). P ((x # xs) ! k) ((y # ys) ! k)"
    using y(1) ys(2) by (auto simp: nth_Cons split: nat.splits)
  with ys(1,3) y(2) b(3) show ?case
    by (intro exI[of _ "y # ys"]) simp
qed

lemma filterE_total:
  "(\<And>x. x \<in> set xs \<Longrightarrow> \<exists>b. p x = Inr b) \<Longrightarrow> \<exists>ys. filterE p xs = Inr ys"
proof (induction xs)
  case Nil
  then show ?case by simp
next
  case (Cons x xs)
  from Cons.prems[of x] obtain b where b: "p x = Inr b" by auto
  from Cons.IH Cons.prems obtain ys where "filterE p xs = Inr ys" by auto
  with b show ?case by (simp add: bindE_def)
qed

lemma stat_item_Inr:
  "stat_item entries item = Inr b \<Longrightarrow>
     \<exists>child. map_of entries item = Some child \<and> statSync_isDirectory child = Inr b"
  by (auto simp: stat_item_def split: option.splits)

text \<open>The output of \<open>generateTree\<close> for a directory it lists, block by block.\<close>

lemma generateTree_listing:
  assumes "readdirSync dir = Inr entries"
    and "\<not> beyond level (maxDepth e)"
    and "\<not> (level > 0 \<and> shouldExcludePath (excludePaths (config_of e)) relativePath)"
    and "generateTree e dir dirPath level relativePath prefix = Inr out"
  shows "\<exists>dirs files belows.
           dirs = sort (visible_dirs (config_of e) entries relativePath)
         \<and> files = sort (visible_files (config_of e) entries dirPath)
         \<and> length belows = length dirs
         \<and> (\<forall>k < length dirs. \<exists>child.
               map_of entries (dirs ! k) = Some child
             \<and> generateTree e child (path_join dirPath (dirs ! k)) (level + 1)
                  (path_join relativePath (dirs ! k))
                  (prefix @ (if k = length (dirs @ files) - 1 then js ''   '' else VERTICAL @ js ''  ''))
                 = Inr (belows ! k))
         \<and> out = concat (map (\<lambda>((i, item), below).
                           dir_block prefix (i = length (dirs @ files) - 1) item below)
                         (zip (enumerate 0 dirs) belows))
               @ concat (map (\<lambda>(i, item).
                           file_block e entries dirPath prefix (i = length (dirs @ files) - 1) item)
                         (enumerate (length dirs) files))"
proof -
  let ?cfg = "fst (loadConfig (configFile e) (customRootDir e))"
  have cfg: "config_of e = ?cfg" by (simp add: config_of_def)
  let ?f = "\<lambda>allItems. (\<lambda>(index, item).
             (let itemPath = path_join dirPath item;
                  itemRelativePath = path_join relativePath item;
                  isLastItem = (index = length allItems - 1)
              in bindE (stat_item entries item) (\<lambda>isDirectory.
                 (let branch = (if isLastItem then CORNER else JUNCTION);
                      connector = HORIZONTAL @ HORIZONTAL;
                      line = prefix @ branch @ connector @ js '' '' @ item
                  in case map_of entries item of
                       None \<Rightarrow> Inl (Error (js ''ENOENT''))
                     | Some child \<Rightarrow>
                         if isDirectory
                         then (let newPrefix = prefix @ (if isLastItem then js ''   '' else VERTICAL @ js ''  '')
                               in bindE (generateTree e child itemPath (level + 1) itemRelativePath newPrefix)
                                    (\<lambda>below. Inr (line @ js ''/'' @ [cu (CHR 0x0A)] @ below)))
                         else Inr (line @ render_file e ?cfg child itemPath prefix isLastItem)))))"
  from assms obtain allItems where
    a: "allItems_of ?cfg entries dirPath relativePath = Inr allItems"
    and c: "concatMapE (?f allItems) (enumerate 0 allItems) = Inr out"
    unfolding cfg
    by (subst (asm) generateTree.simps) (auto simp: bindE_def Let_def split: sum.splits)
  from a obtain dirs files where
    f: "files_of (excludeFiles ?cfg) entries dirPath = Inr files"
    and d: "dirs_of (excludePaths ?cfg) entries relativePath = Inr dirs"
    and al: "allItems = dirs @ files"
    by (auto simp: allItems_of_def bindE_def split: sum.splits)
  have dirs: "dirs = sort (visible_dirs (config_of e) entries relativePath)"
    using dirs_of_Inr[OF d] by (simp add: visible_dirs_def cfg)
  have files: "files = sort (visible_files (config_of e) entries dirPath)"
    using files_of_Inr[OF f] by (simp add: visible_files_def cfg)
  let ?n = "length (dirs @ files)"
  have en: "enumerate 0 allItems = enumerate 0 dirs @ enumerate (length dirs) files"
    by (simp add: al enumerate_append_eq)
  from c en concatMapE_append_Inr[of "?f allItems" "enumerate 0 dirs" "enumerate (length dirs) files" out]
  obtain od ofs where od: "concatMapE (?f allItems) (enumerate 0 dirs) = Inr od"
    and ofs: "concatMapE (?f allItems) (enumerate (length dirs) files) = Inr ofs"
    and out: "out = od @ ofs" by auto
  \<comment> \<open>the files\<close>
  have "?f allItems x = Inr ((\<lambda>(i, item). file_block e entries dirPath prefix (i = ?n - 1) item) x)"
    if "x \<in> set (enumerate (length dirs) files)" for x
  proof -
    obtain i item where x: "x = (i, item)" by (cases x)
    with that have "item \<in> set files" by (auto simp: in_set_enumerate_eq)
    with files have "stat_item entries item = Inr False" by (auto simp: visible_files_def)
    from this stat_item_Inr[OF this] show ?thesis
      by (auto simp: x al file_block_def entry_line_def bindE_def Let_def cfg)
  qed
  from concatMapE_all_Inr[of "enumerate (length dirs) files" "?f allItems", OF this] ofs
  have ofs': "ofs = concat (map (\<lambda>(i, item). file_block e entries dirPath prefix (i = ?n - 1) item)
                         (enumerate (length dirs) files))"
    by simp
  \<comment> \<open>the directories\<close>
  let ?P = "\<lambda>x below. \<exists>child. map_of entries (snd x) = Some child
             \<and> generateTree e child (path_join dirPath (snd x)) (level + 1)
                  (path_join relativePath (snd x))
                  (prefix @ (if fst x = ?n - 1 then js ''   '' else VERTICAL @ js ''  ''))
                 = Inr below"
  let ?g = "\<lambda>x below. dir_block prefix (fst x = ?n - 1) (snd x) below"
  have "\<exists>y. ?P x y \<and> b = ?g x y"
    if "x \<in> set (enumerate 0 dirs)" "?f allItems x = Inr b" for x b
  proof -
    obtain i item where x: "x = (i, item)" by (cases x)
    with that(1) have "item \<in> set dirs" by (auto simp: in_set_enumerate_eq)
    with dirs have st: "stat_item entries item = Inr True" by (auto simp: visible_dirs_def)
    from stat_item_Inr[OF st] obtain child where ch: "map_of entries item = Some child" by blast
    from that(2) st ch obtain below where
      "generateTree e child (path_join dirPath item) (level + 1) (path_join relativePath item)
         (prefix @ (if i = ?n - 1 then js ''   '' else VERTICAL @ js ''  '')) = Inr below"
      "b = dir_block prefix (i = ?n - 1) item below"
      by (auto simp: x al dir_block_def entry_line_def bindE_def Let_def split: sum.splits)
    with ch show ?thesis by (auto simp: x)
  qed
  from concatMapE_zip[of "?f allItems" "enumerate 0 dirs" od ?P ?g, OF od this]
  obtain belows where bl: "length belows = length dirs"
    "\<forall>k < length dirs. ?P (enumerate 0 dirs ! k) (belows ! k)"
    "od = concat (map (\<lambda>(x, y). ?g x y) (zip (enumerate 0 dirs) belows))"
    by auto
  have P: "\<forall>k < length dirs. \<exists>child.
               map_of entries (dirs ! k) = Some child
             \<and> generateTree e child (path_join dirPath (dirs ! k)) (level + 1)
                  (path_join relativePath (dirs ! k))
                  (prefix @ (if k = ?n - 1 then js ''   '' else VERTICAL @ js ''  ''))
                 = Inr (belows ! k)"
    using bl(2) by (auto simp: nth_enumerate_eq)
  have od': "od = concat (map (\<lambda>((i, item), below). dir_block prefix (i = ?n - 1) item below)
                         (zip (enumerate 0 dirs) belows))"
    unfolding bl(3) by (rule arg_cong[where f = concat]) (auto simp: case_prod_beta)
  from dirs files bl(1) P out od' ofs' show ?thesis by blast
qed

lemma healthy_stat: "healthy n \<Longrightarrow> \<exists>b. statSync_isDirectory n = Inr b"
  by (cases n) auto

lemma healthy_entry:
  assumes "healthy (Directory entries)" "item \<in> set (map fst entries)"
  shows "\<exists>child b. map_of entries item = Some child \<and> healthy child
           \<and> stat_item entries item = Inr b \<and> statSync_isDirectory child = Inr b"
proof -
  from assms(2) obtain child where c: "map_of entries item = Some child"
    by (metis map_of_eq_None_iff not_Some_eq set_map)
  then have "(item, child) \<in> set entries" by (rule map_of_SomeD)
  with assms(1) have h: "healthy child" by (auto simp: list_all_iff)
  from healthy_stat[OF h] obtain b where "statSync_isDirectory child = Inr b" by blast
  with c h show ?thesis by (auto simp: stat_item_def)
qed

lemma allItems_of_total:
  assumes "healthy (Directory entries)"
  shows "\<exists>allItems. allItems_of cfg entries dirPath relativePath = Inr allItems
           \<and> set allItems \<subseteq> set (map fst entries)"
proof -
  have st: "\<exists>b. stat_item entries item = Inr b" if "item \<in> set (map fst entries)" for item
    using healthy_entry[OF assms that] by blast
  let ?pf = "\<lambda>item. (let itemPath = path_join dirPath item
               in bindE (stat_item entries item) (\<lambda>isDirectory.
                    Inr (\<not> isDirectory \<and> \<not> startsWith item (js ''.'')
                         \<and> \<not> shouldExcludeFile (excludeFiles cfg) itemPath)))"
  let ?pd = "\<lambda>item. (let itemRelativePath = path_join relativePath item
               in bindE (stat_item entries item) (\<lambda>isDirectory.
                    Inr (isDirectory \<and> \<not> startsWith item (js ''.'')
                         \<and> \<not> shouldExcludePath (excludePaths cfg) itemRelativePath)))"
  have "\<exists>b. ?pf item = Inr b" if "item \<in> set (map fst entries)" for item
    using st[OF that] by (auto simp: bindE_def Let_def)
  from filterE_total[of "map fst entries" ?pf, OF this]
  obtain fs where fs: "filterE ?pf (map fst entries) = Inr fs" by blast
  have "\<exists>b. ?pd item = Inr b" if "item \<in> set (map fst entries)" for item
    using st[OF that] by (auto simp: bindE_def Let_def)
  from filterE_total[of "map fst entries" ?pd, OF this]
  obtain ds where ds: "filterE ?pd (map fst entries) = Inr ds" by blast
  have "set fs \<subseteq> set (map fst entries)" "set ds \<subseteq> set (map fst entries)"
    using filterE_Inr[OF fs] filterE_Inr[OF ds] by auto
  moreover have "allItems_of cfg entries dirPath relativePath = Inr (sort ds @ sort fs)"
    using fs ds by (simp add: allItems_of_def files_of_def dirs_of_def bindE_def)
  ultimately show ?thesis by auto
qed

lemma generateTree_total:
  "healthy dir \<Longrightarrow> statSync_isDirectory dir = Inr True \<Longrightarrow>
     \<exists>out. generateTree e dir dirPath level relativePath prefix = Inr out"
proof (induction dir arbitrary: dirPath level relativePath prefix)
  case (File r)
  then show ?case by simp
next
  case (UnreadableDirectory err)
  then show ?case by simp
next
  case (Broken err)
  then show ?case by simp
next
  case (Directory entries)
  let ?cfg = "fst (loadConfig (configFile e) (customRootDir e))"
  from allItems_of_total[OF Directory.prems(1), of ?cfg dirPath relativePath]
  obtain allItems where a: "allItems_of ?cfg entries dirPath relativePath = Inr allItems"
    and sub: "set allItems \<subseteq> set (map fst entries)" by blast
  let ?f = "(\<lambda>(index, item).
             (let itemPath = path_join dirPath item;
                  itemRelativePath = path_join relativePath item;
                  isLastItem = (index = length allItems - 1)
              in bindE (stat_item entries item) (\<lambda>isDirectory.
                 (let branch = (if isLastItem then CORNER else JUNCTION);
                      connector = HORIZONTAL @ HORIZONTAL;
                      line = prefix @ branch @ connector @ js '' '' @ item
                  in case map_of entries item of
                       None \<Rightarrow> Inl (Error (js ''ENOENT''))
                     | Some child \<Rightarrow>
                         if isDirectory
                         then (let newPrefix = prefix @ (if isLastItem then js ''   '' else VERTICAL @ js ''  '')
                               in bindE (generateTree e child itemPath (level + 1) itemRelativePath newPrefix)
                                    (\<lambda>below. Inr (line @ js ''/'' @ [cu (CHR 0x0A)] @ below)))
                         else Inr (line @ render_file e ?cfg child itemPath prefix isLastItem)))))"
  have "\<exists>b. ?f x = Inr b" if "x \<in> set (enumerate 0 allItems)" for x
  proof -
    obtain i item where x: "x = (i, item)" by (cases x)
    with that sub have "item \<in> set (map fst entries)" by (auto simp: in_set_enumerate_eq)
    from healthy_entry[OF Directory.prems(1) this] obtain child b where
      c: "map_of entries item = Some child" "healthy child"
         "stat_item entries item = Inr b" "statSync_isDirectory child = Inr b" by blast
    show ?thesis
    proof (cases b)
      case True
      from c(1) have "(item, child) \<in> set entries" by (rule map_of_SomeD)
      then have "\<exists>out. generateTree e child (path_join dirPath item) (level + 1)
                  (path_join relativePath item)
                  (prefix @ (if i = length allItems - 1 then js ''   '' else VERTICAL @ js ''  '')) = Inr out"
        using Directory.IH[of "(item, child)" child] c(2,4) True by auto
      with c True show ?thesis by (auto simp: x bindE_def Let_def)
    next
      case False
      with c show ?thesis by (auto simp: x bindE_def Let_def)
    qed
  qed
  from concatMapE_total[of "enumerate 0 allItems" ?f, OF this]
  obtain out where "concatMapE ?f (enumerate 0 allItems) = Inr out" by blast
  with a show ?case
    by (subst generateTree.simps) (simp add: bindE_def Let_def)
qed

lemma render_file_readable:
  "\<exists>below. render_file e cfg (File (Inr content)) itemPath prefix isLastItem = counted content @ below
       \<and> (extname itemPath \<notin> set (includeExtensions cfg) \<longrightarrow> below = [])"
  by (auto simp: render_file_def counted_def bindE_def Let_def simp del: string_of_nat.simps split: sum.splits)

lemma concat_map_split:
  "x \<in> set xs \<Longrightarrow> \<exists>before after. concat (map f xs) = before @ f x @ after"
proof -
  assume "x \<in> set xs"
  then obtain ys zs where "xs = ys @ x # zs" by (auto dest: split_list)
  then have "concat (map f xs) = concat (map f ys) @ f x @ concat (map f zs)" by simp
  then show ?thesis by blast
qed

subsection \<open>C7: directories before files\<close>

text \<open>
  Claim C7. Let \<open>generateTree\<close> list a directory: the directory can be read, the level is
  within the depth bound and the path is not excluded. Then whatever it returns is, first,
  one block for each surviving subdirectory and, after all of them, one block for each
  surviving file. The subdirectories are all the entries that are directories, not hidden
  and not excluded by their path, sorted by the order of \<open>Array.prototype.sort\<close> on their
  names (code unit by code unit); the files are all the other entries that are not hidden
  and not excluded by their name, sorted likewise. The block of a directory is the line that
  names it, closed by \<open>/\<close>, and then the tree that \<open>generateTree\<close> returns for it one level
  deeper; the block of a file is the line that names it and what \<open>render_file\<close> appends.
  No name decides between the two groups: the directory \<open>zzz\<close> is printed before the file
  \<open>aaa\<close>. On a tree in which every directory can be listed and \<open>fs.statSync\<close> succeeds
  on every entry, \<open>generateTree\<close> does return.
\<close>

theorem directories_precede_files:
  assumes "readdirSync dir = Inr entries"
    and "\<not> beyond level (maxDepth e)"
    and "\<not> (level > 0 \<and> shouldExcludePath (excludePaths (config_of e)) relativePath)"
  shows "(healthy dir \<longrightarrow> (\<exists>out. generateTree e dir dirPath level relativePath prefix = Inr out))
       \<and> (\<forall>out. generateTree e dir dirPath level relativePath prefix = Inr out \<longrightarrow>
            (\<exists>dirs files belows.
                dirs = sort (visible_dirs (config_of e) entries relativePath)
              \<and> files = sort (visible_files (config_of e) entries dirPath)
              \<and> sorted dirs \<and> sorted files
              \<and> length belows = length dirs
              \<and> (\<forall>k < length dirs. \<exists>child.
                    map_of entries (dirs ! k) = Some child
                  \<and> generateTree e child (path_join dirPath (dirs ! k)) (level + 1)
                       (path_join relativePath (dirs ! k))
                       (prefix @ (if k = length (dirs @ files) - 1 then js ''   '' else VERTICAL @ js ''  ''))
                      = Inr (belows ! k))
              \<and> out = concat (map (\<lambda>((i, item), below).
                                dir_block prefix (i = length (dirs @ files) - 1) item below)
                              (zip (enumerate 0 dirs) belows))
                    @ concat (map (\<lambda>(i, item).
                                file_block e entries dirPath prefix (i = length (dirs @ files) - 1) item)
                              (enumerate (length dirs) files))))"
proof (intro conjI impI allI)
  assume "healthy dir"
  moreover from assms(1) have "statSync_isDirectory dir = Inr True" by (cases dir) auto
  ultimately show "\<exists>out. generateTree e dir dirPath level relativePath prefix = Inr out"
    by (rule generateTree_total)
next
  fix out assume g: "generateTree e dir dirPath level relativePath prefix = Inr out"
  from generateTree_listing[OF assms g] obtain dirs files belows where
    l: "dirs = sort (visible_dirs (config_of e) entries relativePath)"
       "files = sort (visible_files (config_of e) entries dirPath)"
       "length belows = length dirs"
       "\<forall>k < length dirs. \<exists>child.
               map_of entries (dirs ! k) = Some child
             \<and> generateTree e child (path_join dirPath (dirs ! k)) (level + 1)
                  (path_join relativePath (dirs ! k))
                  (prefix @ (if k = length (dirs @ files) - 1 then js ''   '' else VERTICAL @ js ''  ''))
                 = Inr (belows ! k)"
       "out = concat (map (\<lambda>((i, item), below).
                           dir_block prefix (i = length (dirs @ files) - 1) item below)
                         (zip (enumerate 0 dirs) belows))
               @ concat (map (\<lambda>(i, item).
                           file_block e entries dirPath prefix (i = length (dirs @ files) - 1) item)
                         (enumerate (length dirs) files))"
    by blast
  from l(1,2) have "sorted dirs" "sorted files" by simp_all
  with l show "\<exists>dirs files belows.
                dirs = sort (visible_dirs (config_of e) entries relativePath)
              \<and> files = sort (visible_files (config_of e) entries dirPath)
              \<and> sorted dirs \<and> sorted files
              \<and> length belows = length dirs
              \<and> (\<forall>k < length dirs. \<exists>child.
                    map_of entries (dirs ! k) = Some child
                  \<and> generateTree e child (path_join dirPath (dirs ! k)) (level + 1)
                       (path_join relativePath (dirs ! k))
                       (prefix @ (if k = length (dirs @ files) - 1 then js ''   '' else VERTICAL @ js ''  ''))
                      = Inr (belows ! k))
              \<and> out = concat (map (\<lambda>((i, item), below).
                                dir_block prefix (i = length (dirs @ files) - 1) item below)
                              (zip (enumerate 0 dirs) belows))
                    @ concat (map (\<lambda>(i, item).
                                file_block e entries dirPath prefix (i = length (dirs @ files) - 1) item)
                              (enumerate (length dirs) files))"
    by blast
qed

theorem directories_precede_files_witness:
  "generateTree example_env (Directory [(js ''aaa'', File (Inr (js ''x''))), (js ''zzz'', Directory [])])
       (js ''/proj'') 0 [] []
     = Inr (JUNCTION @ HORIZONTAL @ HORIZONTAL @ js '' zzz/'' @ [cu (CHR 0x0A)]
            @ CORNER @ HORIZONTAL @ HORIZONTAL @ js '' aaa (1 lines)'' @ [cu (CHR 0x0A)])
   \<and> sort (visible_dirs (config_of example_env)
             [(js ''aaa'', File (Inr (js ''x''))), (js ''zzz'', Directory [])] []) = [js ''zzz'']
   \<and> sort (visible_files (config_of example_env)
             [(js ''aaa'', File (Inr (js ''x''))), (js ''zzz'', Directory [])] (js ''/proj'')) = [js ''aaa'']
   \<and> (\<exists>belows. length belows = 1
         \<and> JUNCTION @ HORIZONTAL @ HORIZONTAL @ js '' zzz/'' @ [cu (CHR 0x0A)]
            @ CORNER @ HORIZONTAL @ HORIZONTAL @ js '' aaa (1 lines)'' @ [cu (CHR 0x0A)]
          = concat (map (\<lambda>((i, item), below). dir_block [] (i = 1) item below)
                        (zip (enumerate 0 [js ''zzz'']) belows))
            @ concat (map (\<lambda>(i, item).
                        file_block example_env
                          [(js ''aaa'', File (Inr (js ''x''))), (js ''zzz'', Directory [])]
                          (js ''/proj'') [] (i = 1) item)
                      (enumerate 1 [js ''aaa''])))"
proof -
  let ?entries = "[(js ''aaa'', File (Inr (js ''x''))), (js ''zzz'', Directory [])]"
  let ?out = "JUNCTION @ HORIZONTAL @ HORIZONTAL @ js '' zzz/'' @ [cu (CHR 0x0A)]
            @ CORNER @ HORIZONTAL @ HORIZONTAL @ js '' aaa (1 lines)'' @ [cu (CHR 0x0A)]"
  have g: "generateTree example_env (Directory ?entries) (js ''/proj'') 0 [] [] = Inr ?out"
    by code_simp
  have d: "sort (visible_dirs (config_of example_env) ?entries []) = [js ''zzz'']"
    by code_simp
  have f: "sort (visible_files (config_of example_env) ?entries (js ''/proj'')) = [js ''aaa'']"
    by code_simp
  have r: "readdirSync (Directory ?entries) = Inr ?entries" by simp
  have b: "\<not> beyond 0 (maxDepth example_env)" by (simp add: beyond_def example_env_def)
  have x: "\<not> (0 < (0::nat) \<and> shouldExcludePath (excludePaths (config_of example_env)) [])"
    by simp
  from directories_precede_files[OF r b x, of "js ''/proj''" "[]"] g
  obtain dirs files belows where
    l: "dirs = sort (visible_dirs (config_of example_env) ?entries [])"
       "files = sort (visible_files (config_of example_env) ?entries (js ''/proj''))"
       "length belows = length dirs"
       "?out = concat (map (\<lambda>((i, item), below).
                           dir_block [] (i = length (dirs @ files) - 1) item below)
                         (zip (enumerate 0 dirs) belows))
               @ concat (map (\<lambda>(i, item).
                           file_block example_env ?entries (js ''/proj'') [] (i = length (dirs @ files) - 1) item)
                         (enumerate (length dirs) files))"
    by blast
  from l(1) d have dirs: "dirs = [js ''zzz'']" by (simp only:)
  from l(2) f have files: "files = [js ''aaa'']" by (simp only:)
  from l(3,4) have "length belows = 1
         \<and> ?out = concat (map (\<lambda>((i, item), below). dir_block [] (i = 1) item below)
                        (zip (enumerate 0 [js ''zzz'']) belows))
            @ concat (map (\<lambda>(i, item).
                        file_block example_env ?entries (js ''/proj'') [] (i = 1) item)
                      (enumerate 1 [js ''aaa'']))"
    unfolding dirs files by simp
  with g d f show ?thesis by blast
qed

subsection \<open>C10: the included extensions do not decide visibility\<close>

text \<open>
  Claim C10. Let \<open>generateTree\<close> list a directory (it can be read, the level is within the
  depth bound, the path is not excluded), and let an entry of it be a file that can be read,
  is not hidden and is not excluded by its name. Then whatever \<open>generateTree\<close> returns
  contains the line that names the file, followed by its line count and by what
  \<open>render_file\<close> puts beneath it; the included extensions are not asked. When the extension
  of the file is not among the included extensions, nothing is put beneath it: the line
  count is all that \<open>render_file\<close> appends. On a tree in which every directory can be listed
  and \<open>fs.statSync\<close> succeeds on every entry, \<open>generateTree\<close> does return.
\<close>

theorem visible_file_is_printed:
  assumes "readdirSync dir = Inr entries"
    and "\<not> beyond level (maxDepth e)"
    and "\<not> (level > 0 \<and> shouldExcludePath (excludePaths (config_of e)) relativePath)"
    and "map_of entries item = Some (File (Inr content))"
    and "\<not> startsWith item (js ''.'')"
    and "\<not> shouldExcludeFile (excludeFiles (config_of e)) (path_join dirPath item)"
  shows "(healthy dir \<longrightarrow> (\<exists>out. generateTree e dir dirPath level relativePath prefix = Inr out))
       \<and> (\<forall>out. generateTree e dir dirPath level relativePath prefix = Inr out \<longrightarrow>
            (\<exists>before after isLastItem below.
                out = before @ entry_line prefix isLastItem item @ counted content @ below @ after
              \<and> render_file e (config_of e) (File (Inr content)) (path_join dirPath item) prefix isLastItem
                  = counted content @ below
              \<and> (extname (path_join dirPath item) \<notin> set (includeExtensions (config_of e))
                   \<longrightarrow> below = [])))"
proof (intro conjI impI allI)
  assume "healthy dir"
  moreover from assms(1) have "statSync_isDirectory dir = Inr True" by (cases dir) auto
  ultimately show "\<exists>out. generateTree e dir dirPath level relativePath prefix = Inr out"
    by (rule generateTree_total)
next
  fix out assume g: "generateTree e dir dirPath level relativePath prefix = Inr out"
  from generateTree_listing[OF assms(1-3) g] obtain dirs files belows where
    files: "files = sort (visible_files (config_of e) entries dirPath)"
    and out: "out = concat (map (\<lambda>((i, item), below).
                           dir_block prefix (i = length (dirs @ files) - 1) item below)
                         (zip (enumerate 0 dirs) belows))
               @ concat (map (\<lambda>(i, item).
                           file_block e entries dirPath prefix (i = length (dirs @ files) - 1) item)
                         (enumerate (length dirs) files))"
    by blast
  from assms(4) have "(item, File (Inr content)) \<in> set entries" by (rule map_of_SomeD)
  then have "item \<in> set (map fst entries)" by force
  moreover from assms(4) have "stat_item entries item = Inr False" by (simp add: stat_item_def)
  ultimately have "item \<in> set files"
    using assms(5,6) by (simp add: files visible_files_def)
  then obtain j where j: "j < length files" "files ! j = item" by (auto simp: in_set_conv_nth)
  then have "(length dirs + j, item) \<in> set (enumerate (length dirs) files)"
    by (auto simp: in_set_enumerate_eq)
  from concat_map_split[OF this, of "\<lambda>(i, item).
         file_block e entries dirPath prefix (i = length (dirs @ files) - 1) item"]
  obtain b1 a1 where sp: "concat (map (\<lambda>(i, item).
                           file_block e entries dirPath prefix (i = length (dirs @ files) - 1) item)
                         (enumerate (length dirs) files))
       = b1 @ file_block e entries dirPath prefix (length dirs + j = length (dirs @ files) - 1) item @ a1"
    by auto
  let ?l = "length dirs + j = length (dirs @ files) - 1"
  from render_file_readable[of e "config_of e" content "path_join dirPath item" prefix ?l]
  obtain below where b: "render_file e (config_of e) (File (Inr content)) (path_join dirPath item) prefix ?l
        = counted content @ below"
      "extname (path_join dirPath item) \<notin> set (includeExtensions (config_of e)) \<longrightarrow> below = []"
    by blast
  have "file_block e entries dirPath prefix ?l item = entry_line prefix ?l item @ counted content @ below"
    using assms(4) b(1) by (simp add: file_block_def)
  with out sp have "out = (concat (map (\<lambda>((i, item), below).
                           dir_block prefix (i = length (dirs @ files) - 1) item below)
                         (zip (enumerate 0 dirs) belows)) @ b1)
        @ entry_line prefix ?l item @ counted content @ below @ a1"
    by simp
  with b show "\<exists>before after isLastItem below.
                out = before @ entry_line prefix isLastItem item @ counted content @ below @ after
              \<and> render_file e (config_of e) (File (Inr content)) (path_join dirPath item) prefix isLastItem
                  = counted content @ below
              \<and> (extname (path_join dirPath item) \<notin> set (includeExtensions (config_of e))
                   \<longrightarrow> below = [])"
    by blast
qed

theorem visible_file_is_printed_witness:
  "generateTree example_env (Directory [(js ''README.md'', File (Inr (js ''hello'')))])
       (js ''/proj'') 0 [] []
     = Inr (CORNER @ HORIZONTAL @ HORIZONTAL @ js '' README.md (1 lines)'' @ [cu (CHR 0x0A)])
   \<and> extname (path_join (js ''/proj'') (js ''README.md''))
        \<notin> set (includeExtensions (config_of example_env))
   \<and> (\<exists>before after isLastItem.
         CORNER @ HORIZONTAL @ HORIZONTAL @ js '' README.md (1 lines)'' @ [cu (CHR 0x0A)]
           = before @ entry_line [] isLastItem (js ''README.md'') @ counted (js ''hello'') @ after
       \<and> render_file example_env (config_of example_env) (File (Inr (js ''hello'')))
             (path_join (js ''/proj'') (js ''README.md'')) [] isLastItem = counted (js ''hello''))"
proof -
  let ?entries = "[(js ''README.md'', File (Inr (js ''hello'')))]"
  let ?out = "CORNER @ HORIZONTAL @ HORIZONTAL @ js '' README.md (1 lines)'' @ [cu (CHR 0x0A)]"
  have g: "generateTree example_env (Directory ?entries) (js ''/proj'') 0 [] [] = Inr ?out"
    by code_simp
  have n: "extname (path_join (js ''/proj'') (js ''README.md''))
        \<notin> set (includeExtensions (config_of example_env))"
    by code_simp
  have r: "readdirSync (Directory ?entries) = Inr ?entries" by simp
  have b: "\<not> beyond 0 (maxDepth example_env)" by (simp add: beyond_def example_env_def)
  have x: "\<not> (0 < (0::nat) \<and> shouldExcludePath (excludePaths (config_of example_env)) [])"
    by simp
  have m: "map_of ?entries (js ''README.md'') = Some (File (Inr (js ''hello'')))" by simp
  have h: "\<not> startsWith (js ''README.md'') (js ''.'')" by (simp add: startsWith_def)
  have s: "\<not> shouldExcludeFile (excludeFiles (config_of example_env))
               (path_join (js ''/proj'') (js ''README.md''))"
    by code_simp
  from visible_file_is_printed[OF r b x m h s, of "[]"] g
  obtain before after isLastItem below where
    l: "?out = before @ entry_line [] isLastItem (js ''README.md'') @ counted (js ''hello'') @ below @ after"
       "render_file example_env (config_of example_env) (File (Inr (js ''hello'')))
             (path_join (js ''/proj'') (js ''README.md'')) [] isLastItem = counted (js ''hello'') @ below"
       "extname (path_join (js ''/proj'') (js ''README.md''))
          \<notin> set (includeExtensions (config_of example_env)) \<longrightarrow> below = []"
    by blast
  from l(3) n have "below = []" by blast
  with l(1,2) n g show ?thesis by auto
qed

subsection \<open>C6: when the extractor is called\<close>

text \<open>
  Claim C6 makes membership of the extension in the included set the condition for calling
  the extractor. That fails for \<open>.json\<close>, which the default configuration includes: the
  extractor would return a signature for the file \<open>data.json\<close> below (the parser rejects
  the text and the fallback finds \<open>export function f(x)\<close> in it), yet the tree shows the
  file with its line count only.
\<close>

theorem json_file_gets_no_signatures:
  "showMethods example_env
   \<and> extname (js ''/proj/data.json'')
        \<in> set (includeExtensions (fst (loadConfig (configFile example_env) (customRootDir example_env))))
   \<and> extractMethodSignatures example_env (File (Inr (js ''{ code: export function f(x) {} }'')))
        (showAllMethods example_env) = Inr [js ''export f(x)'']
   \<and> generateTree example_env
        (Directory [((js ''data.json''), File (Inr (js ''{ code: export function f(x) {} }'')))])
        (js ''/proj'') 0 [] []
      = Inr (CORNER @ HORIZONTAL @ HORIZONTAL @ js '' data.json (1 lines)'' @ [cu (CHR 0x0A)])"
  by code_simp

text \<open>
  Claim C6, amended. For a file that can be read, the signatures the extractor returns are
  printed under the file exactly when signatures are shown, the extension of the file is in
  the included set and the extension is one of \<open>.js\<close>, \<open>.mjs\<close>, \<open>.cjs\<close>; otherwise
  nothing follows the line count.
\<close>

theorem signatures_attached_for_js_extensions:
  "\<exists>methods. extractMethodSignatures e (File (Inr content)) (showAllMethods e) = Inr methods
     \<and> render_file e cfg (File (Inr content)) itemPath prefix isLastItem
         = (js '' ('') @ string_of_nat (length (str_split (cu (CHR 0x0A)) content)) @ js '' lines)'' @ [cu (CHR 0x0A)]
           @ (if showMethods e \<and> extname itemPath \<in> set (includeExtensions cfg)
                 \<and> extname itemPath \<in> set [js ''.js'', js ''.mjs'', js ''.cjs'']
              then render_methods prefix isLastItem methods else [])"
proof -
  from extractMethodSignatures_Inr obtain methods where
    m: "extractMethodSignatures e (File (Inr content)) (showAllMethods e) = Inr methods" by blast
  then show ?thesis
    by (cases methods) (auto simp: render_file_def bindE_def Let_def render_methods_Nil simp del: string_of_nat.simps)
qed

subsection \<open>C8: files that cannot be read\<close>

text \<open>
  Claim C8 says that an entry whose content or stats cannot be read is still printed, with
  a marker, and that the traversal goes on. That holds for a file whose content cannot be
  read (the last line below, and the second run: \<open>a.js\<close> is printed with the marker
  and \<open>b.js\<close> follows). It fails for an entry on which \<open>fs.statSync\<close> throws: the
  filters of \<open>generateTree\<close> call \<open>statSync\<close> outside the \<open>try\<close> block, so the exception
  leaves \<open>generateTree\<close> and nothing of the directory is printed (the first run:
  \<open>broken\<close> is a dangling symbolic link beside the readable file \<open>a.js\<close>).
\<close>

theorem stat_failure_aborts_traversal:
  "generateTree example_env
      (Directory [((js ''a.js''), File (Inr (js ''export function f() {''))),
                  ((js ''broken''), Broken (Error (js ''ENOENT'')))])
      (js ''/proj'') 0 [] []
     = Inl (Error (js ''ENOENT''))
   \<and> generateTree example_env
      (Directory [((js ''a.js''), File (Inl (Error (js ''EACCES'')))),
                  ((js ''b.js''), File (Inr (js ''export function f() {'')))])
      (js ''/proj'') 0 [] []
     = Inr (JUNCTION @ HORIZONTAL @ HORIZONTAL @ js '' a.js (error reading file)'' @ [cu (CHR 0x0A)]
            @ CORNER @ HORIZONTAL @ HORIZONTAL @ js '' b.js (1 lines)'' @ [cu (CHR 0x0A)]
            @ js ''   '' @ CORNER @ HORIZONTAL @ js '' export f()'' @ [cu (CHR 0x0A)])
   \<and> render_file e cfg (File (Inl err)) itemPath prefix isLastItem
     = (js '' (error reading file)'') @ [cu (CHR 0x0A)]"
proof (intro conjI)
  show "generateTree example_env
      (Directory [((js ''a.js''), File (Inr (js ''export function f() {''))),
                  ((js ''broken''), Broken (Error (js ''ENOENT'')))])
      (js ''/proj'') 0 [] []
     = Inl (Error (js ''ENOENT''))"
    by code_simp
  show "generateTree example_env
      (Directory [((js ''a.js''), File (Inl (Error (js ''EACCES'')))),
                  ((js ''b.js''), File (Inr (js ''export function f() {'')))])
      (js ''/proj'') 0 [] []
     = Inr (JUNCTION @ HORIZONTAL @ HORIZONTAL @ js '' a.js (error reading file)'' @ [cu (CHR 0x0A)]
            @ CORNER @ HORIZONTAL @ HORIZONTAL @ js '' b.js (1 lines)'' @ [cu (CHR 0x0A)]
            @ js ''   '' @ CORNER @ HORIZONTAL @ js '' export f()'' @ [cu (CHR 0x0A)])"
    by code_simp
  show "render_file e cfg (File (Inl err)) itemPath prefix isLastItem
     = (js '' (error reading file)'') @ [cu (CHR 0x0A)]"
    by (simp add: render_file_def bindE_def)
qed

subsection \<open>C2: the two strategies\<close>







































end
